theory Spec2Isabelle
  imports Main "HOL-Library.Word" "HOL-Library.Sublist"
begin

section \<open>JavaScript strings\<close>

text \<open>
  A JavaScript string is a sequence of UTF-16 code units. Literals of the script that are
  plain ASCII are written \<open>js ''...''\<close>; the two literals with a character beyond ASCII
  (the ellipsis of the progress message, the bullet of the file summary) are spelled out
  as code units.
\<close>

type_synonym jsstring = "16 word list"

definition js :: "string \<Rightarrow> jsstring" where
  "js s = map of_char s"

text \<open>
  \<open>String.prototype.trim\<close> removes the code units of the grammar's WhiteSpace and
  LineTerminator productions from both ends.
\<close>

definition isWhiteSpace :: "16 word \<Rightarrow> bool" where
  "isWhiteSpace c \<longleftrightarrow>
     c = 0x9 \<or> c = 0xA \<or> c = 0xB \<or> c = 0xC \<or> c = 0xD \<or> c = 0x20 \<or> c = 0xA0 \<or>
     c = 0x1680 \<or> (0x2000 \<le> c \<and> c \<le> 0x200A) \<or> c = 0x2028 \<or> c = 0x2029 \<or>
     c = 0x202F \<or> c = 0x205F \<or> c = 0x3000 \<or> c = 0xFEFF"

definition trim :: "jsstring \<Rightarrow> jsstring" where
  "trim s = rev (dropWhile isWhiteSpace (rev (dropWhile isWhiteSpace s)))"

text \<open>\<open>s.includes(t)\<close>: \<open>t\<close> occurs in \<open>s\<close> as a contiguous run of code units.\<close>

fun includes_js :: "jsstring \<Rightarrow> jsstring \<Rightarrow> bool" where
  "includes_js [] t = (t = [])"
| "includes_js (c # cs) t = (prefix t (c # cs) \<or> includes_js cs t)"

text \<open>\<open>Array.prototype.join\<close> on an array of strings.\<close>

fun join :: "jsstring \<Rightarrow> jsstring list \<Rightarrow> jsstring" where
  "join sep [] = []"
| "join sep [x] = x"
| "join sep (x # y # ys) = x @ sep @ join sep (y # ys)"

text \<open>
  The string of a non-negative integral Number below \<open>10\<^sup>2\<^sup>1\<close>: its decimal digits.
\<close>

definition digit :: "nat \<Rightarrow> 16 word" where
  "digit d = 0x30 + of_nat d"

fun decimal :: "nat \<Rightarrow> jsstring" where
  "decimal n = (if n < 10 then [digit n] else decimal (n div 10) @ [digit (n mod 10)])"

declare decimal.simps [simp del]

text \<open>
  \<open>Math.round(f.size/1024)\<close>. A file's size is a whole number of bytes; below \<open>2\<^sup>5\<^sup>3\<close>
  the division by 1024 is exact in double arithmetic, and \<open>Math.round\<close> takes the
  nearest integer, the upper one at a tie.
\<close>

definition round_div_1024 :: "nat \<Rightarrow> nat" where
  "round_div_1024 n = (n + 512) div 1024"

section \<open>Files, requests and responses\<close>

type_synonym blob = "8 word list"

record File =
  name :: jsstring
  size_bytes :: nat
  contents :: blob

text \<open>
  A \<open>FormData\<close> object is the ordered list of the entries appended to it, each a name with
  a file and its file name or with a string. The model ends at this list: how the platform
  writes the entries into the multipart body is not part of the script.
\<close>

datatype form_value = FileValue File jsstring | StringValue jsstring

type_synonym FormData = "(jsstring \<times> form_value) list"

datatype body_init = StringBody jsstring | FormDataBody FormData

text \<open>
  The options object handed to \<open>fetch\<close>; a property the script leaves out is \<open>None\<close>
  (no headers: the empty list).
\<close>

record init =
  credentials :: "jsstring option"
  http_method :: "jsstring option"
  headers :: "(jsstring \<times> jsstring) list"
  body :: "body_init option"

definition no_opts :: init where
  "no_opts = \<lparr>credentials = None, http_method = None, headers = [], body = None\<rparr>"

text \<open>
  Values produced by \<open>JSON.parse\<close>. The script never computes with a number, it only
  displays it, so a number is carried as the string that \<open>ToString\<close> gives for it.
\<close>

datatype jsval =
    JNull
  | JBool bool
  | JNum jsstring
  | JStr jsstring
  | JArr "jsval list"
  | JObj "(jsstring \<times> jsval) list"

text \<open>
  A response as the script reads it: the status line, the \<open>content-type\<close> header
  (\<open>None\<close> when the header is absent) and what \<open>res.text()\<close>, \<open>res.json()\<close> and
  \<open>res.blob()\<close> resolve to. \<open>res.json()\<close> rejects with a SyntaxError, carrying the
  engine's message, when the body is not JSON.
\<close>

record response =
  status :: nat
  statusText :: jsstring
  content_type :: "jsstring option"
  body_text :: jsstring
  body_json :: "jsstring + jsval"
  body_blob :: blob

definition ok :: "response \<Rightarrow> bool" where
  "ok res \<longleftrightarrow> 200 \<le> status res \<and> status res \<le> 299"

text \<open>\<open>fetch\<close> rejects (with a TypeError and its message) when no response is reachable.\<close>

datatype fetch_result = Rejected jsstring | Resolved response

datatype error = Error jsstring | TypeError jsstring | SyntaxError jsstring

fun message :: "error \<Rightarrow> jsstring" where
  "message (Error m) = m"
| "message (TypeError m) = m"
| "message (SyntaxError m) = m"

text \<open>
  The places where the engine itself raises a TypeError on a parsed JSON value: reading a
  property of \<open>null\<close>, calling a property that is not a function, converting an object
  that has no usable \<open>toString\<close> to a string. The wording of these messages is the
  engine's.
\<close>

datatype type_error = ReadOfNull | NotAFunction | NotPrimitive

record platform =
  fetch :: "jsstring \<Rightarrow> init \<Rightarrow> fetch_result"
  typeErrorMessage :: "type_error \<Rightarrow> jsstring"

text \<open>What \<open>api\<close> resolves to: the parsed JSON value, or the response itself.\<close>

datatype api_result = Parsed jsval | Raw response

section \<open>The page\<close>

datatype element = toastEl | creditsEl | priceEl | progressBox | progressMsg | fileList

datatype input = email | password | dateEl | cropEl | startEl | endEl

datatype callback = AddHidden element

record anchor =
  href :: nat
  download :: jsstring

datatype event =
    SetTextContent element jsstring
  | ClassListAdd element
  | ClassListRemove element
  | SetBorderColor element jsstring
  | SetTimeout callback nat
  | Fetch jsstring init
  | CreateObjectURL nat blob
  | AppendChild anchor
  | Click anchor
  | Remove anchor
  | RevokeObjectURL nat

text \<open>
  The state the script reads and writes: the text of the display elements, whether each
  carries the class \<open>hidden\<close>, the border colour, the values of the form inputs, the file
  list of the file input (\<open>None\<close> when there is none), the object URLs that are alive (an
  object URL is modelled by the number of the call that created it), and the trace of
  every effect in the order it happened.
\<close>

record page =
  textContent :: "element \<Rightarrow> jsstring"
  hidden :: "element \<Rightarrow> bool"
  borderColor :: "element \<Rightarrow> jsstring"
  input_value :: "input \<Rightarrow> jsstring"
  files :: "File list option"
  objectURLs :: "(nat \<times> blob) list"
  nextURL :: nat
  trace :: "event list"

definition emit :: "event \<Rightarrow> page \<Rightarrow> page" where
  "emit e st = st\<lparr>trace := trace st @ [e]\<rparr>"

definition setTextContent :: "element \<Rightarrow> jsstring \<Rightarrow> page \<Rightarrow> page" where
  "setTextContent el s st = emit (SetTextContent el s) (st\<lparr>textContent := (textContent st)(el := s)\<rparr>)"

definition classList_add :: "element \<Rightarrow> page \<Rightarrow> page" where
  "classList_add el st = emit (ClassListAdd el) (st\<lparr>hidden := (hidden st)(el := True)\<rparr>)"

definition classList_remove :: "element \<Rightarrow> page \<Rightarrow> page" where
  "classList_remove el st = emit (ClassListRemove el) (st\<lparr>hidden := (hidden st)(el := False)\<rparr>)"

definition setBorderColor :: "element \<Rightarrow> jsstring \<Rightarrow> page \<Rightarrow> page" where
  "setBorderColor el s st = emit (SetBorderColor el s) (st\<lparr>borderColor := (borderColor st)(el := s)\<rparr>)"

text \<open>\<open>setTimeout\<close> only schedules; the callback runs when the timer fires.\<close>

definition setTimeout :: "callback \<Rightarrow> nat \<Rightarrow> page \<Rightarrow> page" where
  "setTimeout cb ms st = emit (SetTimeout cb ms) st"

fun run_callback :: "callback \<Rightarrow> page \<Rightarrow> page" where
  "run_callback (AddHidden el) st = classList_add el st"

definition createObjectURL :: "blob \<Rightarrow> page \<Rightarrow> nat \<times> page" where
  "createObjectURL b st =
     (nextURL st,
      emit (CreateObjectURL (nextURL st) b)
        (st\<lparr>objectURLs := (nextURL st, b) # objectURLs st, nextURL := Suc (nextURL st)\<rparr>))"

definition revokeObjectURL :: "nat \<Rightarrow> page \<Rightarrow> page" where
  "revokeObjectURL u st =
     emit (RevokeObjectURL u) (st\<lparr>objectURLs := filter (\<lambda>e. fst e \<noteq> u) (objectURLs st)\<rparr>)"

section \<open>The script\<close>

text \<open>
  An asynchronous function is modelled by running it to its end with the outcome of each
  \<open>fetch\<close> supplied by the platform. A handler calls \<open>refreshStatus()\<close> without awaiting
  it and as its last statement, so the effects of the refresh follow the handler's own.
\<close>

definition toast :: "jsstring \<Rightarrow> bool \<Rightarrow> page \<Rightarrow> page" where
  "toast msg okay st =
     setTimeout (AddHidden toastEl) 3000
       (setBorderColor toastEl (if okay then js ''#1f5ec3'' else js ''#743232'')
         (classList_remove toastEl
           (setTextContent toastEl msg st)))"

text \<open>The object literal \<open>{credentials:'include', ...opts}\<close>.\<close>

definition with_credentials :: "init \<Rightarrow> init" where
  "with_credentials opts =
     opts\<lparr>credentials := (case credentials opts of None \<Rightarrow> Some (js ''include'') | Some c \<Rightarrow> Some c)\<rparr>"

definition api :: "platform \<Rightarrow> jsstring \<Rightarrow> init \<Rightarrow> page \<Rightarrow> (error + api_result) \<times> page" where
  "api p u opts st =
     (let i = with_credentials opts;
          st1 = emit (Fetch u i) st
      in case fetch p u i of
           Rejected m \<Rightarrow> (Inl (TypeError m), st1)
         | Resolved res \<Rightarrow>
             if \<not> ok res then
               (let txt = body_text res
                in (Inl (Error (if txt \<noteq> [] then txt else statusText res)), st1))
             else
               (let ct = (case content_type res of None \<Rightarrow> [] | Some c \<Rightarrow> if c \<noteq> [] then c else [])
                in if includes_js ct (js ''application/json'')
                   then (case body_json res of
                           Inl m \<Rightarrow> (Inl (SyntaxError m), st1)
                         | Inr v \<Rightarrow> (Inr (Parsed v), st1))
                   else (Inr (Raw res), st1)))"

text \<open>
  \<open>data.k\<close> for a property name \<open>k\<close> that the Response interface does not have:
  \<open>undefined\<close> (\<open>None\<close>) unless \<open>data\<close> is a parsed object with that key; a TypeError on \<open>null\<close>.
\<close>

fun get_property :: "platform \<Rightarrow> api_result \<Rightarrow> jsstring \<Rightarrow> error + jsval option" where
  "get_property p (Raw res) k = Inr None"
| "get_property p (Parsed JNull) k = Inl (TypeError (typeErrorMessage p ReadOfNull))"
| "get_property p (Parsed (JObj kvs)) k = Inr (map_of kvs k)"
| "get_property p (Parsed v) k = Inr None"

text \<open>\<open>x ?? d\<close>, with a string as the default.\<close>

fun nullish :: "jsval option \<Rightarrow> jsstring \<Rightarrow> jsval" where
  "nullish None d = JStr d"
| "nullish (Some JNull) d = JStr d"
| "nullish (Some v) d = v"

text \<open>
  The conversion to a string that assigning to \<open>textContent\<close> performs. An array is joined
  with commas, \<open>null\<close> elements giving the empty string; an object parsed from JSON gives
  \<open>[object Object]\<close>, unless it has a property \<open>toString\<close> of its own, which cannot be a
  function: then the conversion throws (\<open>None\<close>).
\<close>

fun toString :: "jsval \<Rightarrow> jsstring option"
  and toStrings :: "jsval list \<Rightarrow> jsstring list option" where
  "toString JNull = Some (js ''null'')"
| "toString (JBool b) = Some (if b then js ''true'' else js ''false'')"
| "toString (JNum s) = Some s"
| "toString (JStr s) = Some s"
| "toString (JArr xs) = map_option (join (js '','')) (toStrings xs)"
| "toString (JObj kvs) =
     (if js ''toString'' \<in> fst ` set kvs then None else Some (js ''[object Object]''))"
| "toStrings [] = Some []"
| "toStrings (x # xs) =
     (case (if x = JNull then Some [] else toString x) of
        None \<Rightarrow> None
      | Some s \<Rightarrow> map_option ((#) s) (toStrings xs))"

text \<open>The string that \<open>el.textContent = data.k ?? d\<close> stores, or the error it throws.\<close>

definition shown :: "platform \<Rightarrow> api_result \<Rightarrow> jsstring \<Rightarrow> jsstring \<Rightarrow> error + jsstring" where
  "shown p data k d =
     (case get_property p data k of
        Inl e \<Rightarrow> Inl e
      | Inr x \<Rightarrow>
          (case toString (nullish x d) of
             None \<Rightarrow> Inl (TypeError (typeErrorMessage p NotPrimitive))
           | Some s \<Rightarrow> Inr s))"

text \<open>The \<open>try\<close> block of \<open>refreshStatus\<close>: the error it throws, if any, and the state.\<close>

definition status_try :: "platform \<Rightarrow> page \<Rightarrow> (error + unit) \<times> page" where
  "status_try p st =
     (case api p (js ''/auth/status'') no_opts st of
        (Inl e, st1) \<Rightarrow> (Inl e, st1)
      | (Inr data, st1) \<Rightarrow>
          (case shown p data (js ''credits'') (js ''?'') of
             Inl e \<Rightarrow> (Inl e, st1)
           | Inr c \<Rightarrow>
               (let st2 = setTextContent creditsEl c st1
                in case shown p data (js ''credit_cost_gbp'') (js ''20'') of
                     Inl e \<Rightarrow> (Inl e, st2)
                   | Inr g \<Rightarrow> (Inr (), setTextContent priceEl g st2))))"

definition refreshStatus :: "platform \<Rightarrow> page \<Rightarrow> page" where
  "refreshStatus p st =
     (case status_try p st of
        (Inl e, st1) \<Rightarrow> setTextContent creditsEl (js ''?'') st1
      | (Inr _, st1) \<Rightarrow> st1)"

text \<open>\<open>res.blob()\<close>: the body of a response; a TypeError on a parsed JSON value.\<close>

fun blob_of :: "platform \<Rightarrow> api_result \<Rightarrow> error + blob" where
  "blob_of p (Raw res) = Inr (body_blob res)"
| "blob_of p (Parsed JNull) = Inl (TypeError (typeErrorMessage p ReadOfNull))"
| "blob_of p (Parsed v) = Inl (TypeError (typeErrorMessage p NotAFunction))"

text \<open>Lines 134 to 139: the form data of a stamp job.\<close>

definition stamp_form :: "File list \<Rightarrow> page \<Rightarrow> FormData" where
  "stamp_form fs st =
     map (\<lambda>f. (js ''files'', FileValue f (name f))) fs @
     [(js ''date'', StringValue (trim (input_value st dateEl))),
      (js ''start_time'', StringValue (trim (input_value st startEl))),
      (js ''end_time'', StringValue (trim (input_value st endEl))),
      (js ''crop_height'', StringValue (trim (input_value st cropEl)))]"

definition stamp_opts :: "File list \<Rightarrow> page \<Rightarrow> init" where
  "stamp_opts fs st = no_opts\<lparr>http_method := Some (js ''POST''), body := Some (FormDataBody (stamp_form fs st))\<rparr>"

text \<open>Lines 146 to 151: the download through a temporary anchor.\<close>

definition save_as :: "blob \<Rightarrow> page \<Rightarrow> page" where
  "save_as b st =
     (let (u, st1) = createObjectURL b st;
          a = \<lparr>href = u, download = js ''stamped_images.zip''\<rparr>
      in revokeObjectURL u (emit (Remove a) (emit (Click a) (emit (AppendChild a) st1))))"

text \<open>The \<open>try\<close> block of the stamp handler: the error it throws, if any, and the state.\<close>

definition stamp_try :: "platform \<Rightarrow> page \<Rightarrow> (error + unit) \<times> page" where
  "stamp_try p st =
     (case files st of
        None \<Rightarrow> (Inl (Error (js ''Please add images or a .zip'')), st)
      | Some fs \<Rightarrow>
          if fs = [] then (Inl (Error (js ''Please add images or a .zip'')), st)
          else
            (let st1 = classList_remove progressBox st;
                 st2 = setTextContent progressMsg (js ''Processing'' @ [0x2026]) st1
             in case api p (js ''/api/stamp'') (stamp_opts fs st) st2 of
                  (Inl e, st3) \<Rightarrow> (Inl e, st3)
                | (Inr res, st3) \<Rightarrow>
                    (case blob_of p res of
                       Inl e \<Rightarrow> (Inl e, st3)
                     | Inr b \<Rightarrow>
                         (let st4 = save_as b st3;
                              st5 = setTextContent progressMsg (js ''Done'') st4;
                              st6 = setTimeout (AddHidden progressBox) 500 st5
                          in (Inr (), refreshStatus p st6)))))"

definition stampBtn_onclick :: "platform \<Rightarrow> page \<Rightarrow> page" where
  "stampBtn_onclick p st =
     (case stamp_try p st of
        (Inl e, st1) \<Rightarrow> toast (message e) False (classList_add progressBox st1)
      | (Inr _, st1) \<Rightarrow> st1)"

text \<open>Lines 98 to 104: the demo top-up.\<close>

definition topupBtn_onclick :: "platform \<Rightarrow> page \<Rightarrow> page" where
  "topupBtn_onclick p st =
     (case api p (js ''/auth/topup_demo'') (no_opts\<lparr>http_method := Some (js ''POST'')\<rparr>) st of
        (Inl e, st1) \<Rightarrow> toast (js ''Demo top-up not enabled'') False st1
      | (Inr _, st1) \<Rightarrow> refreshStatus p (toast (js ''Added 5 demo credits'') True st1))"

definition logoutBtn_onclick :: "platform \<Rightarrow> page \<Rightarrow> page" where
  "logoutBtn_onclick p st =
     (case api p (js ''/auth/logout'') (no_opts\<lparr>http_method := Some (js ''POST'')\<rparr>) st of
        (Inl e, st1) \<Rightarrow> toast (message e) False st1
      | (Inr _, st1) \<Rightarrow> refreshStatus p (toast (js ''Logged out'') True st1))"

subsection \<open>JSON.stringify of the credentials\<close>

text \<open>
  \<open>QuoteJSONString\<close> walks the code points of the string: a surrogate pair is copied, the
  seven characters of the escape table get their two-character escape, any other control
  character and any lone surrogate is written \<open>\uXXXX\<close> in lower-case hexadecimal, and
  everything else is copied.
\<close>

definition hexDigit :: "16 word \<Rightarrow> 16 word" where
  "hexDigit n = (if n < 10 then 0x30 + n else 0x57 + n)"

definition UnicodeEscape :: "16 word \<Rightarrow> jsstring" where
  "UnicodeEscape c =
     [0x5C, 0x75, hexDigit (c div 0x1000), hexDigit (c div 0x100 mod 0x10),
      hexDigit (c div 0x10 mod 0x10), hexDigit (c mod 0x10)]"

definition isLeadingSurrogate :: "16 word \<Rightarrow> bool" where
  "isLeadingSurrogate c \<longleftrightarrow> 0xD800 \<le> c \<and> c \<le> 0xDBFF"

definition isTrailingSurrogate :: "16 word \<Rightarrow> bool" where
  "isTrailingSurrogate c \<longleftrightarrow> 0xDC00 \<le> c \<and> c \<le> 0xDFFF"

definition quote_unit :: "16 word \<Rightarrow> jsstring" where
  "quote_unit c =
     (if c = 0x8 then [0x5C, 0x62]
      else if c = 0x9 then [0x5C, 0x74]
      else if c = 0xA then [0x5C, 0x6E]
      else if c = 0xC then [0x5C, 0x66]
      else if c = 0xD then [0x5C, 0x72]
      else if c = 0x22 then [0x5C, 0x22]
      else if c = 0x5C then [0x5C, 0x5C]
      else if c < 0x20 \<or> isLeadingSurrogate c \<or> isTrailingSurrogate c then UnicodeEscape c
      else [c])"

fun quote_units :: "jsstring \<Rightarrow> jsstring" where
  "quote_units [] = []"
| "quote_units [c] = quote_unit c"
| "quote_units (c # d # cs) =
     (if isLeadingSurrogate c \<and> isTrailingSurrogate d then c # d # quote_units cs
      else quote_unit c @ quote_units (d # cs))"

definition QuoteJSONString :: "jsstring \<Rightarrow> jsstring" where
  "QuoteJSONString s = 0x22 # quote_units s @ [0x22]"

text \<open>\<open>JSON.stringify({email: e, password: pw})\<close> for two strings.\<close>

definition stringify_credentials :: "jsstring \<Rightarrow> jsstring \<Rightarrow> jsstring" where
  "stringify_credentials e pw =
     js ''{'' @ QuoteJSONString (js ''email'') @ js '':'' @ QuoteJSONString e @ js '','' @
     QuoteJSONString (js ''password'') @ js '':'' @ QuoteJSONString pw @ js ''}''"

text \<open>The options of the login and signup requests, lines 69 to 73 and 81 to 85.\<close>

definition credentials_opts :: "page \<Rightarrow> init" where
  "credentials_opts st =
     \<lparr>credentials = None,
      http_method = Some (js ''POST''),
      headers = [(js ''content-type'', js ''application/json'')],
      body = Some (StringBody
        (stringify_credentials (trim (input_value st email)) (input_value st password)))\<rparr>"

definition loginBtn_onclick :: "platform \<Rightarrow> page \<Rightarrow> page" where
  "loginBtn_onclick p st =
     (case api p (js ''/auth/login'') (credentials_opts st) st of
        (Inl e, st1) \<Rightarrow> toast (message e) False st1
      | (Inr _, st1) \<Rightarrow> refreshStatus p (toast (js ''Logged in'') True st1))"

definition signupBtn_onclick :: "platform \<Rightarrow> page \<Rightarrow> page" where
  "signupBtn_onclick p st =
     (case api p (js ''/auth/signup'') (credentials_opts st) st of
        (Inl e, st1) \<Rightarrow> toast (message e) False st1
      | (Inr _, st1) \<Rightarrow> toast (js ''Account created. You can login now.'') True st1)"

text \<open>The inverse reading of a quoted string, used to show that quoting loses nothing.\<close>

definition unhexDigit :: "16 word \<Rightarrow> 16 word" where
  "unhexDigit d = (if d < 0x3A then d - 0x30 else d - 0x57)"

fun unquote_units :: "jsstring \<Rightarrow> jsstring" where
  "unquote_units [] = []"
| "unquote_units [c] = [c]"
| "unquote_units (c # e # cs) =
     (if c \<noteq> 0x5C then c # unquote_units (e # cs)
      else if e = 0x62 then 0x8 # unquote_units cs
      else if e = 0x74 then 0x9 # unquote_units cs
      else if e = 0x6E then 0xA # unquote_units cs
      else if e = 0x66 then 0xC # unquote_units cs
      else if e = 0x72 then 0xD # unquote_units cs
      else if e = 0x75 then
        (case cs of
           h3 # h2 # h1 # h0 # rest \<Rightarrow>
             (unhexDigit h3 * 0x1000 + unhexDigit h2 * 0x100 + unhexDigit h1 * 0x10 + unhexDigit h0)
               # unquote_units rest
         | _ \<Rightarrow> [])
      else e # unquote_units cs)"

subsection \<open>The file summary\<close>

definition summary_entry :: "File \<Rightarrow> jsstring" where
  "summary_entry f = name f @ js '' ('' @ decimal (round_div_1024 (size_bytes f)) @ js '' KB)''"

definition renderFiles :: "File list option \<Rightarrow> page \<Rightarrow> page" where
  "renderFiles list st =
     (case list of
        None \<Rightarrow> setTextContent fileList [] st
      | Some fs \<Rightarrow>
          if fs = [] then setTextContent fileList [] st
          else setTextContent fileList
                 (join [0x20, 0x20, 0x2022, 0x20, 0x20] (map summary_entry fs)) st)"

text \<open>The number that a string of decimal digits denotes.\<close>

definition decimal_value :: "jsstring \<Rightarrow> nat" where
  "decimal_value s = foldl (\<lambda>acc c. 10 * acc + (unat c - 0x30)) 0 s"

subsection \<open>Reading a trace\<close>

text \<open>The content type a response declares, empty when the header is absent.\<close>

definition declared_type :: "response \<Rightarrow> jsstring" where
  "declared_type res = (case content_type res of None \<Rightarrow> [] | Some c \<Rightarrow> c)"


text \<open>The network calls of a trace, in order.\<close>

fun requests :: "event list \<Rightarrow> (jsstring \<times> init) list" where
  "requests [] = []"
| "requests (Fetch u i # es) = (u, i) # requests es"
| "requests (e # es) = requests es"

text \<open>The texts on the page after the writes of a trace, starting from given texts.\<close>

fun texts_after :: "event list \<Rightarrow> (element \<Rightarrow> jsstring) \<Rightarrow> (element \<Rightarrow> jsstring)" where
  "texts_after [] t = t"
| "texts_after (SetTextContent el s # es) t = texts_after es (t(el := s))"
| "texts_after (e # es) t = texts_after es t"

section \<open>What the specification asks of a trimmed value\<close>

text \<open>
  \<open>t\<close> is \<open>s\<close> with its leading and trailing whitespace removed: \<open>s\<close> is \<open>t\<close> between two
  runs of whitespace, and \<open>t\<close> neither starts nor ends with whitespace.
\<close>

definition spec_trimmed :: "jsstring \<Rightarrow> jsstring \<Rightarrow> bool" where
  "spec_trimmed s t \<longleftrightarrow>
     (\<exists>l \<in> set (prefixes s). \<exists>r \<in> set (suffixes s).
        s = l @ t @ r \<and> list_all isWhiteSpace l \<and> list_all isWhiteSpace r) \<and>
     (t = [] \<or> (\<not> isWhiteSpace (hd t) \<and> \<not> isWhiteSpace (last t)))"

section \<open>Example inputs\<close>

definition a_png :: File where
  "a_png = \<lparr>name = js ''a.png'', size_bytes = 2048, contents = [0x89, 0x50, 0x4E, 0x47]\<rparr>"

definition b_jpg :: File where
  "b_jpg = \<lparr>name = js ''b.jpg'', size_bytes = 1536, contents = [0xFF, 0xD8]\<rparr>"

definition example_page :: page where
  "example_page =
     \<lparr>textContent = (\<lambda>el. if el = priceEl then js ''20'' else []),
      hidden = (\<lambda>el. el = toastEl \<or> el = progressBox),
      borderColor = (\<lambda>el. []),
      input_value = (\<lambda>i. case i of
          email \<Rightarrow> js '' ann@example.org ''
        | password \<Rightarrow> js '' secret ''
        | dateEl \<Rightarrow> js ''01/01/2024''
        | cropEl \<Rightarrow> js '' 100''
        | startEl \<Rightarrow> js ''09:00:00''
        | endEl \<Rightarrow> js ''09:05:00 ''),
      files = None,
      objectURLs = [],
      nextURL = 0,
      trace = []\<rparr>"

definition zip_response :: response where
  "zip_response =
     \<lparr>status = 200, statusText = js ''OK'', content_type = Some (js ''application/zip''),
      body_text = [0x50, 0x4B], body_json = Inl (js ''Unexpected token''),
      body_blob = [0x50, 0x4B, 0x05, 0x06]\<rparr>"

definition json_response :: response where
  "json_response =
     \<lparr>status = 200, statusText = js ''OK'', content_type = Some (js ''application/json''),
      body_text = js ''{}'', body_json = Inr (JObj []), body_blob = [0x7B, 0x7D]\<rparr>"

definition status_response :: response where
  "status_response =
     \<lparr>status = 200, statusText = js ''OK'',
      content_type = Some (js ''application/json; charset=utf-8''),
      body_text = [],
      body_json = Inr (JObj [(js ''credits'', JNum (js ''4'')), (js ''credit_cost_gbp'', JNum (js ''20''))]),
      body_blob = []\<rparr>"

definition refusal :: response where
  "refusal =
     \<lparr>status = 402, statusText = js ''Payment Required'', content_type = Some (js ''text/plain''),
      body_text = js ''Insufficient credits'', body_json = Inl (js ''Unexpected token''),
      body_blob = []\<rparr>"

definition unauthorized :: response where
  "unauthorized =
     \<lparr>status = 401, statusText = js ''Unauthorized'', content_type = None,
      body_text = [], body_json = Inl (js ''Unexpected end of JSON input''),
      body_blob = []\<rparr>"

definition engine_messages :: "type_error \<Rightarrow> jsstring" where
  "engine_messages k =
     (case k of
        ReadOfNull \<Rightarrow> js ''Cannot read properties of null''
      | NotAFunction \<Rightarrow> js ''res.blob is not a function''
      | NotPrimitive \<Rightarrow> js ''Cannot convert object to primitive value'')"

definition null_response :: response where
  "null_response =
     \<lparr>status = 200, statusText = js ''OK'', content_type = Some (js ''application/json''),
      body_text = js ''null'', body_json = Inr JNull, body_blob = []\<rparr>"

text \<open>A server that answers every request with the JSON text \<open>null\<close>.\<close>

definition answering_null :: platform where
  "answering_null = \<lparr>fetch = (\<lambda>u i. Resolved null_response), typeErrorMessage = engine_messages\<rparr>"

text \<open>A server that stamps and reports the balance, and refuses everything else.\<close>

definition serving :: platform where
  "serving =
     \<lparr>fetch = (\<lambda>u i. if u = js ''/api/stamp'' then Resolved zip_response
                     else if u = js ''/auth/status'' then Resolved status_response
                     else Resolved unauthorized),
      typeErrorMessage = engine_messages\<rparr>"

text \<open>A server that answers the stamp request with JSON.\<close>

definition answering_json :: platform where
  "answering_json =
     \<lparr>fetch = (\<lambda>u i. if u = js ''/api/stamp'' then Resolved json_response
                     else Resolved status_response),
      typeErrorMessage = engine_messages\<rparr>"

text \<open>A server that refuses: out of credits for a stamp job, not signed in otherwise.\<close>

definition refusing :: platform where
  "refusing =
     \<lparr>fetch = (\<lambda>u i. if u = js ''/api/stamp'' then Resolved refusal else Resolved unauthorized),
      typeErrorMessage = engine_messages\<rparr>"

text \<open>No network.\<close>

definition offline :: platform where
  "offline = \<lparr>fetch = (\<lambda>u i. Rejected (js ''Failed to fetch'')), typeErrorMessage = engine_messages\<rparr>"

definition example_selection :: page where
  "example_selection = example_page\<lparr>files := Some [a_png, b_jpg]\<rparr>"

section \<open>Basic facts\<close>

lemma trim_spec: "spec_trimmed s (trim s)"
proof -
  define m where "m = dropWhile isWhiteSpace s"
  define l where "l = takeWhile isWhiteSpace s"
  define r where "r = rev (takeWhile isWhiteSpace (rev m))"
  have s: "s = l @ m" by (simp add: l_def m_def)
  have t: "trim s = rev (dropWhile isWhiteSpace (rev m))" by (simp add: trim_def m_def)
  have "rev (dropWhile isWhiteSpace (rev m)) @ rev (takeWhile isWhiteSpace (rev m)) =
        rev (takeWhile isWhiteSpace (rev m) @ dropWhile isWhiteSpace (rev m))"
    by (simp only: rev_append)
  also have "\<dots> = m" by (simp only: takeWhile_dropWhile_id rev_rev_ident)
  finally have m: "m = trim s @ r" by (simp only: t r_def)
  have split: "s = l @ trim s @ r" using s m by simp
  have wl: "list_all isWhiteSpace l"
    by (auto simp: l_def list_all_iff dest: set_takeWhileD)
  have wr: "list_all isWhiteSpace r"
    by (auto simp: r_def list_all_iff dest: set_takeWhileD)
  have pl: "l \<in> set (prefixes s)" using split by (auto simp: prefix_def)
  have "s = (l @ trim s) @ r" using split by simp
  then have pr: "r \<in> set (suffixes s)" unfolding in_set_suffixes suffix_def by (rule exI)
  have ends: "\<not> isWhiteSpace (hd (trim s)) \<and> \<not> isWhiteSpace (last (trim s))" if ne: "trim s \<noteq> []"
  proof
    from ne m have "m \<noteq> []" by auto
    then have "\<not> isWhiteSpace (hd m)" unfolding m_def by (rule hd_dropWhile)
    moreover have "hd m = hd (trim s)" using m ne by (metis hd_append2)
    ultimately show "\<not> isWhiteSpace (hd (trim s))" by simp
    from ne have "dropWhile isWhiteSpace (rev m) \<noteq> []" by (simp add: t)
    then have "\<not> isWhiteSpace (hd (dropWhile isWhiteSpace (rev m)))" by (rule hd_dropWhile)
    then show "\<not> isWhiteSpace (last (trim s))" using ne by (simp add: t last_rev)
  qed
  show ?thesis unfolding spec_trimmed_def using split wl wr pl pr ends by blast
qed

lemma requests_append: "requests (xs @ ys) = requests xs @ requests ys"
  by (induction xs rule: requests.induct) simp_all

lemma requests_emit: "requests (trace (emit e st)) = requests (trace st) @ requests [e]"
  by (simp add: emit_def requests_append)

lemma requests_setTextContent: "requests (trace (setTextContent el s st)) = requests (trace st)"
  by (simp add: setTextContent_def requests_emit)

lemma requests_classList_add: "requests (trace (classList_add el st)) = requests (trace st)"
  by (simp add: classList_add_def requests_emit)

lemma requests_classList_remove: "requests (trace (classList_remove el st)) = requests (trace st)"
  by (simp add: classList_remove_def requests_emit)

lemma requests_setBorderColor: "requests (trace (setBorderColor el s st)) = requests (trace st)"
  by (simp add: setBorderColor_def requests_emit)

lemma requests_setTimeout: "requests (trace (setTimeout cb ms st)) = requests (trace st)"
  by (simp add: setTimeout_def requests_emit)

lemmas requests_dom = requests_setTextContent requests_classList_add requests_classList_remove
  requests_setBorderColor requests_setTimeout

lemma requests_toast: "requests (trace (toast msg okay st)) = requests (trace st)"
  by (simp add: toast_def requests_dom)

lemma requests_save_as: "requests (trace (save_as b st)) = requests (trace st)"
  by (simp add: save_as_def createObjectURL_def revokeObjectURL_def requests_emit Let_def)

lemma api_state: "snd (api p u opts st) = emit (Fetch u (with_credentials opts)) st"
  by (simp add: api_def Let_def split: fetch_result.split sum.split option.split)

lemma requests_api:
  "requests (trace (snd (api p u opts st))) = requests (trace st) @ [(u, with_credentials opts)]"
  by (simp add: api_state requests_emit)

lemma requests_refreshStatus:
  "requests (trace (refreshStatus p st)) =
     requests (trace st) @ [(js ''/auth/status'', with_credentials no_opts)]"
proof -
  obtain r st1 where a: "api p (js ''/auth/status'') no_opts st = (r, st1)" by fastforce
  then have "st1 = snd (api p (js ''/auth/status'') no_opts st)" by simp
  then have "requests (trace st1) = requests (trace st) @ [(js ''/auth/status'', with_credentials no_opts)]"
    by (simp only: requests_api)
  then show ?thesis
    by (simp add: refreshStatus_def status_try_def a Let_def requests_dom split: sum.split)
qed

lemma unat_digit: "d < 10 \<Longrightarrow> unat (digit d) = 48 + d"
  by (simp add: digit_def unat_word_ariths unat_of_nat)

lemma decimal_value_snoc: "decimal_value (s @ [c]) = 10 * decimal_value s + (unat c - 48)"
  by (simp add: decimal_value_def)

lemma decimal_value_decimal: "decimal_value (decimal n) = n"
proof (induction n rule: decimal.induct)
  case (1 n)
  show ?case
  proof (cases "n < 10")
    case True
    then show ?thesis by (simp add: decimal.simps [of n] decimal_value_def unat_digit)
  next
    case False
    then have "decimal n = decimal (n div 10) @ [digit (n mod 10)]" by (simp add: decimal.simps [of n])
    then have "decimal_value (decimal n) = 10 * decimal_value (decimal (n div 10)) + (unat (digit (n mod 10)) - 48)"
      by (simp only: decimal_value_snoc)
    also have "\<dots> = 10 * (n div 10) + n mod 10"
      using "1.IH" [OF False] by (simp add: unat_digit)
    finally show ?thesis by simp
  qed
qed

lemma api_cases:
  obtains r where "api p u opts st = (r, emit (Fetch u (with_credentials opts)) st)"
  using api_state [of p u opts st] by (cases "api p u opts st") simp

lemmas dom_defs = toast_def setTimeout_def setBorderColor_def classList_remove_def
  classList_add_def setTextContent_def emit_def

lemma api_resolved_ok:
  assumes "fetch p u (with_credentials opts) = Resolved res" and "ok res"
  shows "api p u opts st =
    ((if includes_js (declared_type res) (js ''application/json'')
      then (case body_json res of Inl m \<Rightarrow> Inl (SyntaxError m) | Inr v \<Rightarrow> Inr (Parsed v))
      else Inr (Raw res)), emit (Fetch u (with_credentials opts)) st)"
  using assms by (simp add: api_def Let_def declared_type_def split: option.split sum.split)

lemma api_Raw:
  assumes "api p u opts st = (Inr (Raw res), st1)"
  shows "fetch p u (with_credentials opts) = Resolved res \<and> ok res \<and>
         \<not> includes_js (declared_type res) (js ''application/json'')"
  using assms
  by (auto simp: api_def Let_def declared_type_def split: fetch_result.splits if_splits sum.splits option.splits)

lemma blob_of_Parsed: "\<exists>m. blob_of p (Parsed v) = Inl (TypeError m)"
  by (cases v) simp_all

lemma blob_of_Inr:
  assumes "blob_of p x = Inr b"
  shows "\<exists>res. x = Raw res \<and> b = body_blob res"
proof (cases x)
  case (Parsed v)
  with blob_of_Parsed [of p v] assms show ?thesis by auto
next
  case (Raw res)
  with assms show ?thesis by auto
qed

lemma refreshStatus_effect:
  "\<exists>rest. trace (refreshStatus p st) =
            trace st @ Fetch (js ''/auth/status'') (with_credentials no_opts) # rest \<and>
          (\<forall>e \<in> set rest. \<exists>s. e = SetTextContent creditsEl s \<or> e = SetTextContent priceEl s) \<and>
          hidden (refreshStatus p st) = hidden st \<and>
          objectURLs (refreshStatus p st) = objectURLs st \<and>
          textContent (refreshStatus p st) progressMsg = textContent st progressMsg"
proof -
  obtain r where a: "api p (js ''/auth/status'') no_opts st =
      (r, emit (Fetch (js ''/auth/status'') (with_credentials no_opts)) st)"
    by (rule api_cases)
  show ?thesis unfolding refreshStatus_def status_try_def a
    by (simp add: dom_defs Let_def split: sum.split)
qed

lemma texts_after_append: "texts_after (xs @ ys) t = texts_after ys (texts_after xs t)"
  by (induction xs t rule: texts_after.induct) (simp_all only: texts_after.simps append.simps)

lemma refreshStatus_writes:
  "trace (refreshStatus p s) = trace s @ Fetch (js ''/auth/status'') (with_credentials no_opts) #
     (case fetch p (js ''/auth/status'') (with_credentials no_opts) of
        Rejected m \<Rightarrow> [SetTextContent creditsEl (js ''?'')]
      | Resolved r \<Rightarrow>
          if status r < 200 \<or> 299 < status r then [SetTextContent creditsEl (js ''?'')]
          else if \<not> includes_js (declared_type r) (js ''application/json'')
            then [SetTextContent creditsEl (js ''?''), SetTextContent priceEl (js ''20'')]
          else (case body_json r of
             Inl m \<Rightarrow> [SetTextContent creditsEl (js ''?'')]
           | Inr JNull \<Rightarrow> [SetTextContent creditsEl (js ''?'')]
           | Inr (JObj kvs) \<Rightarrow>
               (case toString (nullish (map_of kvs (js ''credits'')) (js ''?'')) of
                  None \<Rightarrow> [SetTextContent creditsEl (js ''?'')]
                | Some c \<Rightarrow>
                    (case toString (nullish (map_of kvs (js ''credit_cost_gbp'')) (js ''20'')) of
                       None \<Rightarrow> [SetTextContent creditsEl c, SetTextContent creditsEl (js ''?'')]
                     | Some g \<Rightarrow> [SetTextContent creditsEl c, SetTextContent priceEl g]))
           | Inr v \<Rightarrow> [SetTextContent creditsEl (js ''?''), SetTextContent priceEl (js ''20'')]))"
  (is "_ = _ @ _ # ?W")
  "textContent (refreshStatus p s) =
     texts_after
     (case fetch p (js ''/auth/status'') (with_credentials no_opts) of
        Rejected m \<Rightarrow> [SetTextContent creditsEl (js ''?'')]
      | Resolved r \<Rightarrow>
          if status r < 200 \<or> 299 < status r then [SetTextContent creditsEl (js ''?'')]
          else if \<not> includes_js (declared_type r) (js ''application/json'')
            then [SetTextContent creditsEl (js ''?''), SetTextContent priceEl (js ''20'')]
          else (case body_json r of
             Inl m \<Rightarrow> [SetTextContent creditsEl (js ''?'')]
           | Inr JNull \<Rightarrow> [SetTextContent creditsEl (js ''?'')]
           | Inr (JObj kvs) \<Rightarrow>
               (case toString (nullish (map_of kvs (js ''credits'')) (js ''?'')) of
                  None \<Rightarrow> [SetTextContent creditsEl (js ''?'')]
                | Some c \<Rightarrow>
                    (case toString (nullish (map_of kvs (js ''credit_cost_gbp'')) (js ''20'')) of
                       None \<Rightarrow> [SetTextContent creditsEl c, SetTextContent creditsEl (js ''?'')]
                     | Some g \<Rightarrow> [SetTextContent creditsEl c, SetTextContent priceEl g]))
           | Inr v \<Rightarrow> [SetTextContent creditsEl (js ''?''), SetTextContent priceEl (js ''20'')]))
     (textContent s)"
proof -
  let ?F = "Fetch (js ''/auth/status'') (with_credentials no_opts)"
  have "trace (refreshStatus p s) = trace s @ ?F # ?W \<and>
        textContent (refreshStatus p s) = texts_after ?W (textContent s)"
  proof (cases "fetch p (js ''/auth/status'') (with_credentials no_opts)")
    case (Rejected m)
    then show ?thesis
      by (simp add: refreshStatus_def status_try_def api_def Let_def dom_defs)
  next
    case (Resolved r)
    show ?thesis
    proof (cases "ok r")
      case False
      with Resolved show ?thesis
        by (simp add: refreshStatus_def status_try_def api_def Let_def dom_defs ok_def not_le)
    next
      case True
      then have st: "\<not> (status r < 200 \<or> 299 < status r)" by (auto simp: ok_def)
      note a = api_resolved_ok [OF Resolved True]
      show ?thesis
      proof (cases "includes_js (declared_type r) (js ''application/json'')")
        case False
        with Resolved st show ?thesis
          by (simp add: refreshStatus_def status_try_def a shown_def Let_def dom_defs)
      next
        case json: True
        show ?thesis
        proof (cases "body_json r")
          case (Inl m)
          with Resolved st json show ?thesis
            by (simp add: refreshStatus_def status_try_def a dom_defs)
        next
          case (Inr v)
          show ?thesis
          proof (cases v)
            case JNull
            with Resolved st json Inr show ?thesis
              by (simp add: refreshStatus_def status_try_def a shown_def dom_defs)
          next
            case (JObj kvs)
            with Resolved st json Inr show ?thesis
              by (simp add: refreshStatus_def status_try_def a shown_def Let_def dom_defs
                  split: option.split)
          next
            case (JBool b)
            with Resolved st json Inr show ?thesis
              by (simp add: refreshStatus_def status_try_def a shown_def Let_def dom_defs)
          next
            case (JNum n)
            with Resolved st json Inr show ?thesis
              by (simp add: refreshStatus_def status_try_def a shown_def Let_def dom_defs)
          next
            case (JStr n)
            with Resolved st json Inr show ?thesis
              by (simp add: refreshStatus_def status_try_def a shown_def Let_def dom_defs)
          next
            case (JArr xs)
            with Resolved st json Inr show ?thesis
              by (simp add: refreshStatus_def status_try_def a shown_def Let_def dom_defs)
          qed
        qed
      qed
    qed
  qed
  then show "trace (refreshStatus p s) = trace s @ ?F # ?W"
    and "textContent (refreshStatus p s) = texts_after ?W (textContent s)"
    by simp_all
qed

lemma save_as_effect:
  "trace (save_as b st) = trace st @
     [CreateObjectURL (nextURL st) b,
      AppendChild \<lparr>href = nextURL st, download = js ''stamped_images.zip''\<rparr>,
      Click \<lparr>href = nextURL st, download = js ''stamped_images.zip''\<rparr>,
      Remove \<lparr>href = nextURL st, download = js ''stamped_images.zip''\<rparr>,
      RevokeObjectURL (nextURL st)] \<and>
   objectURLs (save_as b st) = filter (\<lambda>e. fst e \<noteq> nextURL st) (objectURLs st) \<and>
   hidden (save_as b st) = hidden st \<and> textContent (save_as b st) = textContent st"
  by (simp add: save_as_def createObjectURL_def revokeObjectURL_def emit_def Let_def)

lemma stamp_try_success:
  assumes "fst (stamp_try p st) = Inr ()"
  shows "\<exists>F res. files st = Some F \<and> F \<noteq> [] \<and>
           fetch p (js ''/api/stamp'') (with_credentials (stamp_opts F st)) = Resolved res \<and>
           ok res \<and> \<not> includes_js (declared_type res) (js ''application/json'') \<and>
           snd (stamp_try p st) =
             refreshStatus p
               (setTimeout (AddHidden progressBox) 500
                 (setTextContent progressMsg (js ''Done'')
                   (save_as (body_blob res)
                     (emit (Fetch (js ''/api/stamp'') (with_credentials (stamp_opts F st)))
                       (setTextContent progressMsg (js ''Processing'' @ [0x2026])
                         (classList_remove progressBox st))))))"
proof -
  from assms obtain F where F: "files st = Some F" "F \<noteq> []"
    by (auto simp: stamp_try_def split: option.splits if_splits)
  let ?st2 = "setTextContent progressMsg (js ''Processing'' @ [0x2026]) (classList_remove progressBox st)"
  let ?st3 = "emit (Fetch (js ''/api/stamp'') (with_credentials (stamp_opts F st))) ?st2"
  obtain r where a: "api p (js ''/api/stamp'') (stamp_opts F st) ?st2 = (r, ?st3)"
    by (rule api_cases)
  from assms F a obtain x b where r: "r = Inr x" and b: "blob_of p x = Inr b"
    by (auto simp: stamp_try_def Let_def split: sum.splits)
  from blob_of_Inr [OF b] obtain res where x: "x = Raw res" "b = body_blob res" by blast
  from api_Raw [OF a [unfolded r x]] have ok: "fetch p (js ''/api/stamp'') (with_credentials (stamp_opts F st)) = Resolved res"
     "ok res" "\<not> includes_js (declared_type res) (js ''application/json'')" by simp_all
  have "snd (stamp_try p st) = refreshStatus p
               (setTimeout (AddHidden progressBox) 500
                 (setTextContent progressMsg (js ''Done'') (save_as (body_blob res) ?st3)))"
    using F b x by (simp add: stamp_try_def Let_def a r)
  with F ok show ?thesis by blast
qed

lemma stamp_try_json:
  assumes "files st = Some F" and "F \<noteq> []"
    and "fetch p (js ''/api/stamp'') (with_credentials (stamp_opts F st)) = Resolved res"
    and "ok res" and j: "includes_js (declared_type res) (js ''application/json'')"
  shows "\<exists>e. stamp_try p st =
        (Inl e, emit (Fetch (js ''/api/stamp'') (with_credentials (stamp_opts F st)))
                       (setTextContent progressMsg (js ''Processing'' @ [0x2026])
                         (classList_remove progressBox st)))"
proof (cases "body_json res")
  case (Inl m)
  then show ?thesis using assms(1,2) j by (simp add: stamp_try_def Let_def api_resolved_ok [OF assms(3,4)])
next
  case (Inr v)
  from blob_of_Parsed [of p v] obtain m where "blob_of p (Parsed v) = Inl (TypeError m)" by blast
  then show ?thesis using assms(1,2) j Inr by (simp add: stamp_try_def Let_def api_resolved_ok [OF assms(3,4)])
qed


lemma failed_trace:
  assumes "stamp_try p st = (Inl e, emit (Fetch u i)
                       (setTextContent progressMsg m
                         (classList_remove progressBox st)))"
  shows "trace (stampBtn_onclick p st) = trace st @
              [ClassListRemove progressBox,
               SetTextContent progressMsg m,
               Fetch u i,
               ClassListAdd progressBox,
               SetTextContent toastEl (message e),
               ClassListRemove toastEl,
               SetBorderColor toastEl (js ''#743232''),
               SetTimeout (AddHidden toastEl) 3000]"
  using assms by (simp add: stampBtn_onclick_def dom_defs)


lemma stamp_try_binary:
  assumes "files st = Some F" and "F \<noteq> []"
    and "fetch p (js ''/api/stamp'') (with_credentials (stamp_opts F st)) = Resolved res"
    and "ok res" and "\<not> includes_js (declared_type res) (js ''application/json'')"
  shows "stamp_try p st =
           (Inr (),
            refreshStatus p
               (setTimeout (AddHidden progressBox) 500
                 (setTextContent progressMsg (js ''Done'')
                   (save_as (body_blob res)
                     (emit (Fetch (js ''/api/stamp'') (with_credentials (stamp_opts F st)))
                       (setTextContent progressMsg (js ''Processing'' @ [0x2026])
                         (classList_remove progressBox st)))))))"
  using assms(1,2,5) by (simp add: stamp_try_def Let_def api_resolved_ok [OF assms(3,4)])

lemma succeeded_trace:
  assumes "stamp_try p st =
           (Inr (),
            refreshStatus p
               (setTimeout (AddHidden progressBox) 500
                 (setTextContent progressMsg (js ''Done'')
                   (save_as b
                     (emit (Fetch u i)
                       (setTextContent progressMsg m
                         (classList_remove progressBox st)))))))"
  shows "\<exists>rest. trace (stampBtn_onclick p st) = trace st @
              [ClassListRemove progressBox,
               SetTextContent progressMsg m,
               Fetch u i,
               CreateObjectURL (nextURL st) b,
               AppendChild \<lparr>href = nextURL st, download = js ''stamped_images.zip''\<rparr>,
               Click \<lparr>href = nextURL st, download = js ''stamped_images.zip''\<rparr>,
               Remove \<lparr>href = nextURL st, download = js ''stamped_images.zip''\<rparr>,
               RevokeObjectURL (nextURL st)] @ rest"
proof -
  let ?st6 = "setTimeout (AddHidden progressBox) 500
                 (setTextContent progressMsg (js ''Done'')
                   (save_as b
                     (emit (Fetch u i)
                       (setTextContent progressMsg m
                         (classList_remove progressBox st)))))"
  have final: "stampBtn_onclick p st = refreshStatus p ?st6"
    by (simp add: stampBtn_onclick_def assms)
  have st6: "trace ?st6 = trace st @
              [ClassListRemove progressBox,
               SetTextContent progressMsg m,
               Fetch u i,
               CreateObjectURL (nextURL st) b,
               AppendChild \<lparr>href = nextURL st, download = js ''stamped_images.zip''\<rparr>,
               Click \<lparr>href = nextURL st, download = js ''stamped_images.zip''\<rparr>,
               Remove \<lparr>href = nextURL st, download = js ''stamped_images.zip''\<rparr>,
               RevokeObjectURL (nextURL st)] @
              [SetTextContent progressMsg (js ''Done''), SetTimeout (AddHidden progressBox) 500]"
    by (simp add: save_as_effect setTimeout_def setTextContent_def classList_remove_def emit_def)
  from refreshStatus_effect [of p ?st6] obtain rest where
    "trace (refreshStatus p ?st6) =
       trace ?st6 @ Fetch (js ''/auth/status'') (with_credentials no_opts) # rest"
    by blast
  then have "trace (stampBtn_onclick p st) = trace st @
              [ClassListRemove progressBox,
               SetTextContent progressMsg m,
               Fetch u i,
               CreateObjectURL (nextURL st) b,
               AppendChild \<lparr>href = nextURL st, download = js ''stamped_images.zip''\<rparr>,
               Click \<lparr>href = nextURL st, download = js ''stamped_images.zip''\<rparr>,
               Remove \<lparr>href = nextURL st, download = js ''stamped_images.zip''\<rparr>,
               RevokeObjectURL (nextURL st)] @
              ([SetTextContent progressMsg (js ''Done''), SetTimeout (AddHidden progressBox) 500] @
               Fetch (js ''/auth/status'') (with_credentials no_opts) # rest)"
    unfolding final st6 by (simp only: append_assoc)
  then show ?thesis by (rule exI)
qed

lemma unhexDigit_hexDigit:
  fixes n :: "16 word"
  assumes "n < 16"
  shows "unhexDigit (hexDigit n) = n"
proof -
  have u: "unat n < 16" using assms by (simp add: word_less_nat_alt)
  have a: "unat (0x30 + n) = 48 + unat n" using u by (simp add: unat_word_ariths)
  have b: "unat (0x57 + n) = 87 + unat n" using u by (simp add: unat_word_ariths)
  show ?thesis
  proof (cases "n < 10")
    case True
    then have "0x30 + n < 0x3A" by (simp add: word_less_nat_alt a)
    with True show ?thesis by (simp add: hexDigit_def unhexDigit_def)
  next
    case False
    have "\<not> 0x57 + n < 0x3A" by (simp add: word_less_nat_alt b)
    with False show ?thesis by (simp add: hexDigit_def unhexDigit_def)
  qed
qed

lemma nibbles_nat:
  fixes n :: nat
  shows "n div 4096 * 4096 + n div 256 mod 16 * 256 + n div 16 mod 16 * 16 + n mod 16 = n"
proof -
  have a: "n = n div 16 * 16 + n mod 16" by simp
  have b: "n div 16 = n div 16 div 16 * 16 + n div 16 mod 16" by simp
  have c: "n div 256 = n div 256 div 16 * 16 + n div 256 mod 16" by simp
  have d: "n div 16 div 16 = n div 256" "n div 256 div 16 = n div 4096"
    by (simp_all add: div_mult2_eq [symmetric])
  from a b c d show ?thesis by linarith
qed

lemma nibbles_word:
  fixes c :: "16 word"
  shows "c div 0x1000 < 16" "c div 0x100 mod 0x10 < 16" "c div 0x10 mod 0x10 < 16" "c mod 0x10 < 16"
    "c div 0x1000 * 0x1000 + c div 0x100 mod 0x10 * 0x100 + c div 0x10 mod 0x10 * 0x10 + c mod 0x10 = c"
proof -
  have mm: "x mod 65536 mod 16 = x mod 16" for x :: nat
    by (rule mod_mod_cancel) simp
  have lt: "unat c < 65536" using unsigned_less [of c, where ?'a = nat] by simp
  show "c div 0x1000 < 16" using lt by (simp add: word_less_nat_alt unat_div) 
  show "c div 0x100 mod 0x10 < 16" by (simp add: word_less_nat_alt unat_mod)
  show "c div 0x10 mod 0x10 < 16" by (simp add: word_less_nat_alt unat_mod)
  show "c mod 0x10 < 16" by (simp add: word_less_nat_alt unat_mod)
  have "unat (c div 0x1000 * 0x1000 + c div 0x100 mod 0x10 * 0x100 + c div 0x10 mod 0x10 * 0x10 + c mod 0x10) =
        (unat c div 4096 * 4096 + unat c div 256 mod 16 * 256 + unat c div 16 mod 16 * 16 + unat c mod 16) mod 65536"
    by (simp add: unat_word_ariths unat_div unat_mod mod_simps mm)
  also have "\<dots> = unat c" using lt by (simp only: nibbles_nat) simp
  finally show "c div 0x1000 * 0x1000 + c div 0x100 mod 0x10 * 0x100 + c div 0x10 mod 0x10 * 0x10 + c mod 0x10 = c"
    by (simp only: word_unat_eq_iff)
qed

lemma unquote_plain: "c \<noteq> 0x5C \<Longrightarrow> unquote_units (c # r) = c # unquote_units r"
  by (cases r) simp_all

lemma unquote_UnicodeEscape: "unquote_units (UnicodeEscape c @ r) = c # unquote_units r"
  by (simp add: UnicodeEscape_def unhexDigit_hexDigit nibbles_word)

lemma unquote_quote_unit: "unquote_units (quote_unit c @ r) = c # unquote_units r"
  by (simp add: quote_unit_def unquote_UnicodeEscape unquote_plain)

lemma unquote_quote_units: "unquote_units (quote_units s) = s"
proof (induction s rule: quote_units.induct)
  case 1
  show ?case by simp
next
  case (2 c)
  from unquote_quote_unit [of c "[]"] show ?case by simp
next
  case (3 c d cs)
  show ?case
  proof (cases "isLeadingSurrogate c \<and> isTrailingSurrogate d")
    case True
    then have ne: "c \<noteq> 0x5C" "d \<noteq> 0x5C"
      by (auto simp: isLeadingSurrogate_def isTrailingSurrogate_def)
    from True have "quote_units (c # d # cs) = c # d # quote_units cs" by simp
    then show ?thesis by (simp only: unquote_plain [OF ne(1)] unquote_plain [OF ne(2)] "3.IH"(1) [OF True])
  next
    case False
    then have "quote_units (c # d # cs) = quote_unit c @ quote_units (d # cs)" by auto
    then show ?thesis by (simp only: unquote_quote_unit "3.IH"(2) [OF False])
  qed
qed

lemma quote_units_inj: "quote_units s = quote_units t \<Longrightarrow> s = t"
  by (metis unquote_quote_units)

lemma stringify_credentials_inj:
  assumes "stringify_credentials e pw = stringify_credentials e pw'"
  shows "pw = pw'"
proof -
  from assms have "quote_units pw @ [0x22] @ js ''}'' = quote_units pw' @ [0x22] @ js ''}''"
    by (simp add: stringify_credentials_def QuoteJSONString_def)
  then have "quote_units pw = quote_units pw'" by (simp only: append_same_eq)
  then show ?thesis by (rule quote_units_inj)
qed

lemma credentials_request:
  "with_credentials (credentials_opts st) =
     \<lparr>credentials = Some (js ''include''), http_method = Some (js ''POST''),
      headers = [(js ''content-type'', js ''application/json'')],
      body = Some (StringBody
        (stringify_credentials (trim (input_value st email)) (input_value st password)))\<rparr>"
  by (simp add: with_credentials_def credentials_opts_def)

lemmas example_defs = example_selection_def example_page_def a_png_def b_jpg_def

lemma example_json_trace:
  "trace (stampBtn_onclick answering_json example_selection) =
     [ClassListRemove progressBox,
      SetTextContent progressMsg (js ''Processing'' @ [0x2026]),
      Fetch (js ''/api/stamp'') (with_credentials (stamp_opts [a_png, b_jpg] example_selection)),
      ClassListAdd progressBox,
      SetTextContent toastEl (js ''res.blob is not a function''),
      ClassListRemove toastEl,
      SetBorderColor toastEl (js ''#743232''),
      SetTimeout (AddHidden toastEl) 3000]"
proof -
  have f: "fetch answering_json (js ''/api/stamp'') (with_credentials (stamp_opts [a_png, b_jpg] example_selection)) =
      Resolved json_response"
    by (simp add: answering_json_def)
  have k: "ok json_response" by (simp add: ok_def json_response_def)
  have t: "includes_js (declared_type json_response) (js ''application/json'')"
    by (simp add: declared_type_def json_response_def js_def)
  have b: "body_json json_response = Inr (JObj [])" by (simp add: json_response_def)
  have m: "typeErrorMessage answering_json NotAFunction = js ''res.blob is not a function''"
    by (simp add: answering_json_def engine_messages_def)
  have fs: "files example_selection = Some [a_png, b_jpg]" "trace example_selection = []"
    by (simp_all add: example_defs)
  have "stamp_try answering_json example_selection =
      (Inl (TypeError (js ''res.blob is not a function'')),
       emit (Fetch (js ''/api/stamp'') (with_credentials (stamp_opts [a_png, b_jpg] example_selection)))
         (setTextContent progressMsg (js ''Processing'' @ [0x2026])
           (classList_remove progressBox example_selection)))"
    unfolding stamp_try_def fs by (simp add: Let_def api_resolved_ok [OF f k] t b m)
  then show ?thesis
    by (simp add: stampBtn_onclick_def dom_defs fs)
qed

section \<open>Stamp submission without files\<close>

text \<open>
  C1. With no file list, or an empty one, the stamp handler hides the progress indicator
  and shows the notice "Please add images or a .zip" as a failure, whatever the form
  values; these are all its effects, so no request is sent.
\<close>

theorem stamp_without_files:
  assumes "files st = None \<or> files st = Some []"
  shows "trace (stampBtn_onclick p st) = trace st @
           [ClassListAdd progressBox,
            SetTextContent toastEl (js ''Please add images or a .zip''),
            ClassListRemove toastEl,
            SetBorderColor toastEl (js ''#743232''),
            SetTimeout (AddHidden toastEl) 3000] \<and>
         textContent (stampBtn_onclick p st) toastEl = js ''Please add images or a .zip'' \<and>
         \<not> hidden (stampBtn_onclick p st) toastEl \<and>
         requests (trace (stampBtn_onclick p st)) = requests (trace st)"
  using assms
  by (auto simp: stampBtn_onclick_def stamp_try_def toast_def setTimeout_def setBorderColor_def
      classList_remove_def classList_add_def setTextContent_def emit_def requests_append)

theorem stamp_without_files_witness:
  "files example_page = None \<and>
   trace (stampBtn_onclick serving example_page) =
     [ClassListAdd progressBox,
      SetTextContent toastEl (js ''Please add images or a .zip''),
      ClassListRemove toastEl,
      SetBorderColor toastEl (js ''#743232''),
      SetTimeout (AddHidden toastEl) 3000]"
  using stamp_without_files [of example_page serving]
  by (simp add: example_page_def)

section \<open>The stamp request\<close>

text \<open>
  C2. With a non-empty file list \<open>F\<close>, the stamp handler sends one request to
  \<open>/api/stamp\<close> (any later request of the handler is the status query). Its body is form
  data with one file entry per file of \<open>F\<close>, in the order of \<open>F\<close>, each under the name
  \<open>files\<close>, followed by exactly the four fields \<open>date\<close>, \<open>start_time\<close>, \<open>end_time\<close> and
  \<open>crop_height\<close>, each holding the value of its form input with the leading and trailing
  whitespace removed.
\<close>

theorem stamp_request_form:
  assumes "files st = Some F" and "F \<noteq> []"
  shows "(\<exists>later.
           requests (trace (stampBtn_onclick p st)) =
             requests (trace st) @
             (js ''/api/stamp'',
              \<lparr>credentials = Some (js ''include''), http_method = Some (js ''POST''), headers = [],
               body = Some (FormDataBody
                 (map (\<lambda>f. (js ''files'', FileValue f (name f))) F @
                  [(js ''date'', StringValue (trim (input_value st dateEl))),
                   (js ''start_time'', StringValue (trim (input_value st startEl))),
                   (js ''end_time'', StringValue (trim (input_value st endEl))),
                   (js ''crop_height'', StringValue (trim (input_value st cropEl)))]))\<rparr>) # later \<and>
           (\<forall>r \<in> set later. fst r = js ''/auth/status'')) \<and>
         (\<forall>i. spec_trimmed (input_value st i) (trim (input_value st i)))"
proof -
  let ?st2 = "setTextContent progressMsg (js ''Processing'' @ [0x2026]) (classList_remove progressBox st)"
  obtain r st3 where a: "api p (js ''/api/stamp'') (stamp_opts F st) ?st2 = (r, st3)" by fastforce
  then have "st3 = snd (api p (js ''/api/stamp'') (stamp_opts F st) ?st2)" by simp
  then have st3: "requests (trace st3) =
      requests (trace st) @ [(js ''/api/stamp'', with_credentials (stamp_opts F st))]"
    by (simp only: requests_api requests_dom)
  have opts: "with_credentials (stamp_opts F st) =
     \<lparr>credentials = Some (js ''include''), http_method = Some (js ''POST''), headers = [],
               body = Some (FormDataBody
                 (map (\<lambda>f. (js ''files'', FileValue f (name f))) F @
                  [(js ''date'', StringValue (trim (input_value st dateEl))),
                   (js ''start_time'', StringValue (trim (input_value st startEl))),
                   (js ''end_time'', StringValue (trim (input_value st endEl))),
                   (js ''crop_height'', StringValue (trim (input_value st cropEl)))]))\<rparr>"
    by (simp add: with_credentials_def stamp_opts_def no_opts_def stamp_form_def)
  have "\<exists>later. requests (trace (stampBtn_onclick p st)) =
          requests (trace st) @ (js ''/api/stamp'', with_credentials (stamp_opts F st)) # later \<and>
          (\<forall>r \<in> set later. fst r = js ''/auth/status'')"
    using assms
    by (auto simp: stampBtn_onclick_def stamp_try_def Let_def a st3 requests_toast requests_dom
        requests_save_as requests_refreshStatus split: sum.split)
  then show ?thesis by (simp only: opts trim_spec) simp
qed

theorem stamp_request_form_witness:
  "files example_selection = Some [a_png, b_jpg] \<and> [a_png, b_jpg] \<noteq> [] \<and>
   hd (requests (trace (stampBtn_onclick serving example_selection))) =
     (js ''/api/stamp'',
      \<lparr>credentials = Some (js ''include''), http_method = Some (js ''POST''), headers = [],
       body = Some (FormDataBody
         [(js ''files'', FileValue a_png (js ''a.png'')),
          (js ''files'', FileValue b_jpg (js ''b.jpg'')),
          (js ''date'', StringValue (js ''01/01/2024'')),
          (js ''start_time'', StringValue (js ''09:00:00'')),
          (js ''end_time'', StringValue (js ''09:05:00'')),
          (js ''crop_height'', StringValue (js ''100''))])\<rparr>)"
proof -
  have f: "files example_selection = Some [a_png, b_jpg]" by (simp add: example_defs)
  have n: "[a_png, b_jpg] \<noteq> []" by simp
  have t: "trace example_selection = []" by (simp add: example_defs)
  have v: "trim (input_value example_selection dateEl) = js ''01/01/2024''"
    "trim (input_value example_selection startEl) = js ''09:00:00''"
    "trim (input_value example_selection endEl) = js ''09:05:00''"
    "trim (input_value example_selection cropEl) = js ''100''"
    by (simp_all add: example_defs trim_def isWhiteSpace_def js_def)
  have nm: "name a_png = js ''a.png''" "name b_jpg = js ''b.jpg''" by (simp_all add: a_png_def b_jpg_def)
  from stamp_request_form [OF f n, of serving] show ?thesis
    unfolding t v by (auto simp: f nm)
qed

section \<open>Responses outside 200 to 299\<close>

text \<open>
  C4. Whatever the request, when the response to a call made through \<open>api\<close> has a status
  outside 200 to 299, \<open>api\<close> fails with an Error whose message is the text of the response
  body, or the status phrase when that text is empty.
\<close>

theorem api_non_2xx:
  assumes "fetch p u (with_credentials opts) = Resolved res"
    and "status res < 200 \<or> 299 < status res"
  shows "fst (api p u opts st) =
           Inl (Error (if body_text res = [] then statusText res else body_text res))"
  using assms by (auto simp: api_def Let_def ok_def)

theorem api_non_2xx_witness:
  "fetch refusing (js ''/api/stamp'') (with_credentials (stamp_opts [a_png] example_page)) = Resolved refusal \<and>
   (status refusal < 200 \<or> 299 < status refusal) \<and>
   fst (api refusing (js ''/api/stamp'') (stamp_opts [a_png] example_page) example_page) =
     Inl (Error (js ''Insufficient credits'')) \<and>
   fetch refusing (js ''/auth/status'') (with_credentials no_opts) = Resolved unauthorized \<and>
   fst (api refusing (js ''/auth/status'') no_opts example_page) = Inl (Error (js ''Unauthorized''))"
proof -
  have a: "fetch refusing (js ''/api/stamp'') (with_credentials (stamp_opts [a_png] example_page)) = Resolved refusal"
    by (simp add: refusing_def)
  have b: "status refusal < 200 \<or> 299 < status refusal" by (simp add: refusal_def)
  have c: "fetch refusing (js ''/auth/status'') (with_credentials no_opts) = Resolved unauthorized"
    by (simp add: refusing_def js_def)
  have d: "status unauthorized < 200 \<or> 299 < status unauthorized" by (simp add: unauthorized_def)
  have e: "body_text refusal = js ''Insufficient credits''" "js ''Insufficient credits'' \<noteq> []"
    "body_text unauthorized = []" "statusText unauthorized = js ''Unauthorized''"
    by (simp_all add: refusal_def unauthorized_def js_def)
  show ?thesis
    using api_non_2xx [OF a b, of example_page] api_non_2xx [OF c d, of example_page] a b c
    by (simp add: e)
qed


section \<open>The demo top-up\<close>

text \<open>
  C5. Whenever the call of the demo top-up fails, with whatever error, the handler shows
  the notice "Demo top-up not enabled" as a failure and nothing else: the trace of the
  handler and the texts on the page do not depend on the error.
\<close>

theorem topup_failure_notice:
  assumes "fst (api p (js ''/auth/topup_demo'') (no_opts\<lparr>http_method := Some (js ''POST'')\<rparr>) st) = Inl e"
  shows "trace (topupBtn_onclick p st) = trace st @
           [Fetch (js ''/auth/topup_demo'')
              \<lparr>credentials = Some (js ''include''), http_method = Some (js ''POST''), headers = [], body = None\<rparr>,
            SetTextContent toastEl (js ''Demo top-up not enabled''),
            ClassListRemove toastEl,
            SetBorderColor toastEl (js ''#743232''),
            SetTimeout (AddHidden toastEl) 3000] \<and>
         textContent (topupBtn_onclick p st) =
           (textContent st)(toastEl := js ''Demo top-up not enabled'') \<and>
         \<not> hidden (topupBtn_onclick p st) toastEl"
proof -
  obtain r where a: "api p (js ''/auth/topup_demo'') (no_opts\<lparr>http_method := Some (js ''POST'')\<rparr>) st =
      (r, emit (Fetch (js ''/auth/topup_demo'') (with_credentials (no_opts\<lparr>http_method := Some (js ''POST'')\<rparr>))) st)"
    by (rule api_cases)
  with assms have r: "r = Inl e" by simp
  show ?thesis
    unfolding topupBtn_onclick_def a r
    by (simp add: dom_defs with_credentials_def no_opts_def)
qed

theorem topup_failure_notice_witness:
  "fst (api refusing (js ''/auth/topup_demo'') (no_opts\<lparr>http_method := Some (js ''POST'')\<rparr>) example_page) =
     Inl (Error (js ''Unauthorized'')) \<and>
   textContent (topupBtn_onclick refusing example_page) toastEl = js ''Demo top-up not enabled'' \<and>
   fst (api offline (js ''/auth/topup_demo'') (no_opts\<lparr>http_method := Some (js ''POST'')\<rparr>) example_page) =
     Inl (TypeError (js ''Failed to fetch'')) \<and>
   textContent (topupBtn_onclick offline example_page) toastEl = js ''Demo top-up not enabled''"
proof -
  have a: "fst (api refusing (js ''/auth/topup_demo'') (no_opts\<lparr>http_method := Some (js ''POST'')\<rparr>) example_page) =
     Inl (Error (js ''Unauthorized''))"
    by (simp add: api_def Let_def refusing_def unauthorized_def ok_def js_def)
  have b: "fst (api offline (js ''/auth/topup_demo'') (no_opts\<lparr>http_method := Some (js ''POST'')\<rparr>) example_page) =
     Inl (TypeError (js ''Failed to fetch''))"
    by (simp add: api_def Let_def offline_def)
  show ?thesis
    using topup_failure_notice [OF a] topup_failure_notice [OF b] a b by simp
qed

section \<open>The status query\<close>

text \<open>
  C6. When the status query meets a network failure or a response with a status outside
  200 to 299, \<open>refreshStatus\<close> sets the credits display to "?" and does nothing else: the
  notice keeps its text and no element is shown or hidden.
\<close>

theorem status_failure_placeholder:
  assumes "(\<exists>m. fetch p (js ''/auth/status'') (with_credentials no_opts) = Rejected m) \<or>
           (\<exists>res. fetch p (js ''/auth/status'') (with_credentials no_opts) = Resolved res \<and>
                  (status res < 200 \<or> 299 < status res))"
  shows "trace (refreshStatus p st) = trace st @
           [Fetch (js ''/auth/status'')
              \<lparr>credentials = Some (js ''include''), http_method = None, headers = [], body = None\<rparr>,
            SetTextContent creditsEl (js ''?'')] \<and>
         textContent (refreshStatus p st) creditsEl = js ''?'' \<and>
         textContent (refreshStatus p st) toastEl = textContent st toastEl \<and>
         hidden (refreshStatus p st) = hidden st"
  using assms
  by (auto simp: refreshStatus_def status_try_def api_def Let_def ok_def dom_defs
      with_credentials_def no_opts_def)

theorem status_failure_placeholder_witness:
  "fetch refusing (js ''/auth/status'') (with_credentials no_opts) = Resolved unauthorized \<and>
   299 < status unauthorized \<and>
   trace (refreshStatus refusing example_page) =
     [Fetch (js ''/auth/status'')
        \<lparr>credentials = Some (js ''include''), http_method = None, headers = [], body = None\<rparr>,
      SetTextContent creditsEl (js ''?'')] \<and>
   textContent (refreshStatus refusing example_page) creditsEl = js ''?'' \<and>
   textContent (refreshStatus refusing example_page) toastEl = []"
proof -
  have a: "fetch refusing (js ''/auth/status'') (with_credentials no_opts) = Resolved unauthorized"
    by (simp add: refusing_def js_def)
  have b: "299 < status unauthorized" by (simp add: unauthorized_def)
  have c: "trace example_page = []" "textContent example_page toastEl = []"
    by (simp_all add: example_page_def)
  from a b have "(\<exists>m. fetch refusing (js ''/auth/status'') (with_credentials no_opts) = Rejected m) \<or>
           (\<exists>res. fetch refusing (js ''/auth/status'') (with_credentials no_opts) = Resolved res \<and>
                  (status res < 200 \<or> 299 < status res))" by simp
  from status_failure_placeholder [OF this, of example_page] a b c show ?thesis by simp
qed

text \<open>
  C9. Whenever the \<open>try\<close> block of \<open>refreshStatus\<close> throws, be it that the call failed or
  that the answer could not be displayed, the text of the credits display ends as "?" and
  no other part of the page is changed: in particular the price display keeps the text it
  had.
\<close>

theorem status_failure_frame:
  assumes "fst (status_try p st) = Inl e"
  shows "textContent (refreshStatus p st) = (textContent st)(creditsEl := js ''?'') \<and>
         textContent (refreshStatus p st) priceEl = textContent st priceEl \<and>
         hidden (refreshStatus p st) = hidden st \<and>
         borderColor (refreshStatus p st) = borderColor st \<and>
         input_value (refreshStatus p st) = input_value st \<and>
         files (refreshStatus p st) = files st \<and>
         objectURLs (refreshStatus p st) = objectURLs st \<and>
         nextURL (refreshStatus p st) = nextURL st"
proof -
  obtain r where a: "api p (js ''/auth/status'') no_opts st =
      (r, emit (Fetch (js ''/auth/status'') (with_credentials no_opts)) st)"
    by (rule api_cases)
  show ?thesis
    using assms unfolding refreshStatus_def status_try_def a
    by (auto simp: dom_defs Let_def split: sum.splits)
qed

theorem status_failure_frame_witness:
  "fst (status_try offline example_page) = Inl (TypeError (js ''Failed to fetch'')) \<and>
   textContent (refreshStatus offline example_page) creditsEl = js ''?'' \<and>
   textContent (refreshStatus offline example_page) priceEl = js ''20'' \<and>
   fst (status_try answering_null example_page) = Inl (TypeError (js ''Cannot read properties of null'')) \<and>
   textContent (refreshStatus answering_null example_page) creditsEl = js ''?'' \<and>
   textContent (refreshStatus answering_null example_page) priceEl = js ''20''"
proof -
  have a: "fst (status_try offline example_page) = Inl (TypeError (js ''Failed to fetch''))"
    by (simp add: status_try_def api_def Let_def offline_def)
  have f: "fetch answering_null (js ''/auth/status'') (with_credentials no_opts) = Resolved null_response"
    by (simp add: answering_null_def)
  have k: "ok null_response" by (simp add: ok_def null_response_def)
  have t: "includes_js (declared_type null_response) (js ''application/json'')"
    "body_json null_response = Inr JNull"
    "typeErrorMessage answering_null ReadOfNull = js ''Cannot read properties of null''"
    by (simp_all add: declared_type_def null_response_def answering_null_def engine_messages_def js_def)
  have b: "fst (status_try answering_null example_page) =
      Inl (TypeError (js ''Cannot read properties of null''))"
    by (simp add: status_try_def api_resolved_ok [OF f k] t shown_def)
  have c: "textContent example_page priceEl = js ''20''" by (simp add: example_page_def)
  from status_failure_frame [OF a] status_failure_frame [OF b] a b c show ?thesis by simp
qed


section \<open>The file summary\<close>

text \<open>
  C7. Rendering a file list a second time leaves the summary text as the first rendering
  made it. With no list or an empty one the text is empty. For a non-empty list it is the
  entries "name (k KB)" of the files, in order, joined by the bullet separator, where \<open>k\<close>
  is written in decimal and is the file's size in units of 1024 bytes rounded to the
  nearest whole number (upwards at a half).
\<close>

theorem renderFiles_summary:
  "textContent (renderFiles L (renderFiles L st)) fileList = textContent (renderFiles L st) fileList \<and>
   (L = None \<or> L = Some [] \<longrightarrow> textContent (renderFiles L st) fileList = []) \<and>
   (\<forall>fs. L = Some fs \<and> fs \<noteq> [] \<longrightarrow>
      textContent (renderFiles L st) fileList =
        join [0x20, 0x20, 0x2022, 0x20, 0x20]
          (map (\<lambda>f. name f @ js '' ('' @ decimal (round_div_1024 (size_bytes f)) @ js '' KB)'') fs)) \<and>
   (\<forall>n. decimal_value (decimal (round_div_1024 n)) = round_div_1024 n \<and>
        1024 * round_div_1024 n \<le> n + 512 \<and> n + 512 < 1024 * round_div_1024 n + 1024)"
proof -
  have rendered: "textContent (renderFiles M s) fileList =
      (case M of None \<Rightarrow> [] | Some fs \<Rightarrow>
         if fs = [] then [] else join [0x20, 0x20, 0x2022, 0x20, 0x20] (map summary_entry fs))" for M s
    by (simp add: renderFiles_def setTextContent_def emit_def split: option.split)
  have entry: "summary_entry = (\<lambda>f. name f @ js '' ('' @ decimal (round_div_1024 (size_bytes f)) @ js '' KB)'')"
    by (rule ext) (simp add: summary_entry_def)
  have near: "1024 * round_div_1024 n \<le> n + 512 \<and> n + 512 < 1024 * round_div_1024 n + 1024" for n
  proof -
    have "(n + 512) div 1024 * 1024 + (n + 512) mod 1024 = n + 512" by (rule div_mult_mod_eq)
    moreover have "(n + 512) mod 1024 < 1024" by simp
    ultimately show ?thesis unfolding round_div_1024_def by linarith
  qed
  show ?thesis
    by (auto simp: rendered entry decimal_value_decimal near)
qed

theorem renderFiles_summary_witness:
  "textContent (renderFiles (Some [a_png]) example_page) fileList = js ''a.png (2 KB)'' \<and>
   textContent (renderFiles (Some [a_png, b_jpg]) example_page) fileList =
     js ''a.png (2 KB)  '' @ [0x2022] @ js ''  b.jpg (2 KB)'' \<and>
   textContent (renderFiles (Some []) example_page) fileList = [] \<and>
   textContent (renderFiles None example_page) fileList = []"
proof -
  have d: "decimal 2 = js ''2''" by (simp add: decimal.simps [of 2] digit_def js_def)
  have r: "round_div_1024 2048 = 2" "round_div_1024 1536 = 2" by (simp_all add: round_div_1024_def)
  show ?thesis
    using renderFiles_summary [of "Some [a_png]" example_page]
      renderFiles_summary [of "Some [a_png, b_jpg]" example_page]
      renderFiles_summary [of "Some []" example_page]
      renderFiles_summary [of None example_page]
    by (simp add: a_png_def b_jpg_def r d js_def)
qed


section \<open>A successful stamp submission\<close>

text \<open>
  C8. Whenever the \<open>try\<close> block of the stamp handler completes, the handler's effects are,
  in this order: the progress indicator is shown, its message set to "Processing\<dots>", the
  request sent; then an object URL is created for the body of the response, an anchor with
  that URL and the file name "stamped_images.zip" is appended, clicked and removed, and the
  URL revoked; then the message becomes "Done", the hiding of the indicator is scheduled
  500 ms later, and the status query is sent. The refresh then writes what the answer to the
  status query says, and nothing else:
  \<^item> when the answer has a status from 200 to 299, declares JSON and is an object, the
    credits display gets the value of \<open>credits\<close> ("?" when it is missing or null) and the
    price display the value of \<open>credit_cost_gbp\<close> ("20" when it is missing or null); if
    the value of \<open>credits\<close> cannot be turned into a string the credits display gets "?"
    alone, and if that of \<open>credit_cost_gbp\<close> cannot, the credits display is written and
    then turned to "?";
  \<^item> when there is no response, the status is outside 200 to 299, the declared JSON does
    not parse, or the answer is \<open>null\<close>, the credits display gets "?" and the price display
    is not written;
  \<^item> otherwise (an answer that does not declare JSON, or a JSON value that is neither an
    object nor \<open>null\<close>) the credits display gets "?" and the price display "20".

  The texts on the page at the end are those the writes of the trace leave, the message
  reads "Done", the object URL is no longer alive, and once the timer has fired the
  indicator is hidden and no other element has been shown or hidden.
\<close>

theorem stamp_success_order:
  assumes "fst (stamp_try p st) = Inr ()"
  shows "\<exists>F res rest.
           files st = Some F \<and>
           fetch p (js ''/api/stamp'') (with_credentials (stamp_opts F st)) = Resolved res \<and>
           trace (stampBtn_onclick p st) = trace st @
             [ClassListRemove progressBox,
              SetTextContent progressMsg (js ''Processing'' @ [0x2026]),
              Fetch (js ''/api/stamp'') (with_credentials (stamp_opts F st)),
              CreateObjectURL (nextURL st) (body_blob res),
              AppendChild \<lparr>href = nextURL st, download = js ''stamped_images.zip''\<rparr>,
              Click \<lparr>href = nextURL st, download = js ''stamped_images.zip''\<rparr>,
              Remove \<lparr>href = nextURL st, download = js ''stamped_images.zip''\<rparr>,
              RevokeObjectURL (nextURL st),
              SetTextContent progressMsg (js ''Done''),
              SetTimeout (AddHidden progressBox) 500,
              Fetch (js ''/auth/status'') (with_credentials no_opts)] @ rest \<and>
           rest =
             (case fetch p (js ''/auth/status'') (with_credentials no_opts) of
                Rejected m \<Rightarrow> [SetTextContent creditsEl (js ''?'')]
              | Resolved r \<Rightarrow>
                  if status r < 200 \<or> 299 < status r then [SetTextContent creditsEl (js ''?'')]
                  else if \<not> includes_js (declared_type r) (js ''application/json'')
                    then [SetTextContent creditsEl (js ''?''), SetTextContent priceEl (js ''20'')]
                  else (case body_json r of
                     Inl m \<Rightarrow> [SetTextContent creditsEl (js ''?'')]
                   | Inr JNull \<Rightarrow> [SetTextContent creditsEl (js ''?'')]
                   | Inr (JObj kvs) \<Rightarrow>
                       (case toString (nullish (map_of kvs (js ''credits'')) (js ''?'')) of
                          None \<Rightarrow> [SetTextContent creditsEl (js ''?'')]
                        | Some c \<Rightarrow>
                            (case toString (nullish (map_of kvs (js ''credit_cost_gbp'')) (js ''20'')) of
                               None \<Rightarrow> [SetTextContent creditsEl c, SetTextContent creditsEl (js ''?'')]
                             | Some g \<Rightarrow> [SetTextContent creditsEl c, SetTextContent priceEl g]))
                   | Inr v \<Rightarrow> [SetTextContent creditsEl (js ''?''), SetTextContent priceEl (js ''20'')])) \<and>
           textContent (stampBtn_onclick p st) =
             texts_after (drop (length (trace st)) (trace (stampBtn_onclick p st))) (textContent st) \<and>
           textContent (stampBtn_onclick p st) progressMsg = js ''Done'' \<and>
           hidden (run_callback (AddHidden progressBox) (stampBtn_onclick p st)) =
             (hidden st)(progressBox := True) \<and>
           nextURL st \<notin> fst ` set (objectURLs (stampBtn_onclick p st))"
proof -
  from stamp_try_success [OF assms] obtain F res where F: "files st = Some F"
    and res: "fetch p (js ''/api/stamp'') (with_credentials (stamp_opts F st)) = Resolved res"
    and s: "snd (stamp_try p st) =
             refreshStatus p
               (setTimeout (AddHidden progressBox) 500
                 (setTextContent progressMsg (js ''Done'')
                   (save_as (body_blob res)
                     (emit (Fetch (js ''/api/stamp'') (with_credentials (stamp_opts F st)))
                       (setTextContent progressMsg (js ''Processing'' @ [0x2026])
                         (classList_remove progressBox st))))))"
      (is "_ = refreshStatus p ?st6")
    by blast
  let ?E = "[ClassListRemove progressBox,
              SetTextContent progressMsg (js ''Processing'' @ [0x2026]),
              Fetch (js ''/api/stamp'') (with_credentials (stamp_opts F st)),
              CreateObjectURL (nextURL st) (body_blob res),
              AppendChild \<lparr>href = nextURL st, download = js ''stamped_images.zip''\<rparr>,
              Click \<lparr>href = nextURL st, download = js ''stamped_images.zip''\<rparr>,
              Remove \<lparr>href = nextURL st, download = js ''stamped_images.zip''\<rparr>,
              RevokeObjectURL (nextURL st),
              SetTextContent progressMsg (js ''Done''),
              SetTimeout (AddHidden progressBox) 500]"
  let ?Q = "Fetch (js ''/auth/status'') (with_credentials no_opts)"
  define rest where "rest =
             (case fetch p (js ''/auth/status'') (with_credentials no_opts) of
                Rejected m \<Rightarrow> [SetTextContent creditsEl (js ''?'')]
              | Resolved r \<Rightarrow>
                  if status r < 200 \<or> 299 < status r then [SetTextContent creditsEl (js ''?'')]
                  else if \<not> includes_js (declared_type r) (js ''application/json'')
                    then [SetTextContent creditsEl (js ''?''), SetTextContent priceEl (js ''20'')]
                  else (case body_json r of
                     Inl m \<Rightarrow> [SetTextContent creditsEl (js ''?'')]
                   | Inr JNull \<Rightarrow> [SetTextContent creditsEl (js ''?'')]
                   | Inr (JObj kvs) \<Rightarrow>
                       (case toString (nullish (map_of kvs (js ''credits'')) (js ''?'')) of
                          None \<Rightarrow> [SetTextContent creditsEl (js ''?'')]
                        | Some c \<Rightarrow>
                            (case toString (nullish (map_of kvs (js ''credit_cost_gbp'')) (js ''20'')) of
                               None \<Rightarrow> [SetTextContent creditsEl c, SetTextContent creditsEl (js ''?'')]
                             | Some g \<Rightarrow> [SetTextContent creditsEl c, SetTextContent priceEl g]))
                   | Inr v \<Rightarrow> [SetTextContent creditsEl (js ''?''), SetTextContent priceEl (js ''20'')]))"
  have final: "stampBtn_onclick p st = refreshStatus p ?st6"
    using assms s by (cases "stamp_try p st") (simp add: stampBtn_onclick_def)
  have st6: "trace ?st6 = trace st @ ?E"
    "textContent ?st6 = texts_after (?E @ [?Q]) (textContent st)"
    "hidden ?st6 = (hidden st)(progressBox := False)"
    "nextURL st \<notin> fst ` set (objectURLs ?st6)"
    by (auto simp: save_as_effect setTimeout_def setTextContent_def classList_remove_def emit_def)
  have tr: "trace (stampBtn_onclick p st) = trace st @ (?E @ [?Q]) @ rest"
    unfolding final rest_def refreshStatus_writes(1) [of p ?st6] st6(1) by simp
  have "textContent (stampBtn_onclick p st) = texts_after rest (texts_after (?E @ [?Q]) (textContent st))"
    unfolding final rest_def refreshStatus_writes(2) [of p ?st6] st6(2) by (rule refl)
  then have tx: "textContent (stampBtn_onclick p st) =
      texts_after (drop (length (trace st)) (trace (stampBtn_onclick p st))) (textContent st)"
    unfolding tr by (simp only: texts_after_append append_eq_conv_conj drop_append length_append)
       simp
  from refreshStatus_effect [of p ?st6] have keep:
      "hidden (refreshStatus p ?st6) = hidden ?st6"
      "objectURLs (refreshStatus p ?st6) = objectURLs ?st6"
      "textContent (refreshStatus p ?st6) progressMsg = textContent ?st6 progressMsg"
    by blast+
  have finished: "textContent (stampBtn_onclick p st) progressMsg = js ''Done''"
    unfolding final keep(3) by (simp add: setTimeout_def setTextContent_def emit_def)
  have "hidden (stampBtn_onclick p st) = (hidden st)(progressBox := False)"
    unfolding final keep(1) by (rule st6(3))
  then have hid: "hidden (run_callback (AddHidden progressBox) (stampBtn_onclick p st)) =
      (hidden st)(progressBox := True)"
    by (simp add: classList_add_def emit_def)
  have url: "nextURL st \<notin> fst ` set (objectURLs (stampBtn_onclick p st))"
    unfolding final keep(2) by (rule st6(4))
  have tr': "trace (stampBtn_onclick p st) = trace st @
             [ClassListRemove progressBox,
              SetTextContent progressMsg (js ''Processing'' @ [0x2026]),
              Fetch (js ''/api/stamp'') (with_credentials (stamp_opts F st)),
              CreateObjectURL (nextURL st) (body_blob res),
              AppendChild \<lparr>href = nextURL st, download = js ''stamped_images.zip''\<rparr>,
              Click \<lparr>href = nextURL st, download = js ''stamped_images.zip''\<rparr>,
              Remove \<lparr>href = nextURL st, download = js ''stamped_images.zip''\<rparr>,
              RevokeObjectURL (nextURL st),
              SetTextContent progressMsg (js ''Done''),
              SetTimeout (AddHidden progressBox) 500,
              Fetch (js ''/auth/status'') (with_credentials no_opts)] @ rest"
    unfolding tr by simp
  show ?thesis
    using F res tr' rest_def tx finished hid url by blast
qed

lemma example_stamp_try: "fst (stamp_try serving example_selection) = Inr ()"
proof -
  have f: "fetch serving (js ''/api/stamp'') (with_credentials (stamp_opts [a_png, b_jpg] example_selection)) =
      Resolved zip_response"
    by (simp add: serving_def)
  have k: "ok zip_response" by (simp add: ok_def zip_response_def)
  have t: "\<not> includes_js (declared_type zip_response) (js ''application/json'')"
    by (simp add: declared_type_def zip_response_def js_def)
  have fs: "files example_selection = Some [a_png, b_jpg]" by (simp add: example_defs)
  show ?thesis
    unfolding stamp_try_def fs by (simp add: Let_def api_resolved_ok [OF f k] t)
qed

theorem stamp_success_order_witness:
  "fst (stamp_try serving example_selection) = Inr () \<and>
   trace (stampBtn_onclick serving example_selection) =
      [ClassListRemove progressBox,
       SetTextContent progressMsg (js ''Processing'' @ [0x2026]),
       Fetch (js ''/api/stamp'') (with_credentials (stamp_opts [a_png, b_jpg] example_selection)),
       CreateObjectURL 0 [0x50, 0x4B, 0x05, 0x06],
       AppendChild \<lparr>href = 0, download = js ''stamped_images.zip''\<rparr>,
       Click \<lparr>href = 0, download = js ''stamped_images.zip''\<rparr>,
       Remove \<lparr>href = 0, download = js ''stamped_images.zip''\<rparr>,
       RevokeObjectURL 0,
       SetTextContent progressMsg (js ''Done''),
       SetTimeout (AddHidden progressBox) 500,
       Fetch (js ''/auth/status'') (with_credentials no_opts),
       SetTextContent creditsEl (js ''4''),
       SetTextContent priceEl (js ''20'')] \<and>
   textContent (stampBtn_onclick serving example_selection) progressMsg = js ''Done'' \<and>
   textContent (stampBtn_onclick serving example_selection) creditsEl = js ''4'' \<and>
   textContent (stampBtn_onclick serving example_selection) priceEl = js ''20'' \<and>
   hidden (run_callback (AddHidden progressBox) (stampBtn_onclick serving example_selection)) =
     (\<lambda>el. el = toastEl \<or> el = progressBox)"
proof -
  have f: "fetch serving (js ''/api/stamp'') i = Resolved zip_response" for i
    by (simp add: serving_def)
  have q: "fetch serving (js ''/auth/status'') (with_credentials no_opts) = Resolved status_response"
    by (simp add: serving_def js_def)
  have r: "\<not> (status status_response < 200 \<or> 299 < status status_response)"
    "includes_js (declared_type status_response) (js ''application/json'')"
    "body_json status_response =
       Inr (JObj [(js ''credits'', JNum (js ''4'')), (js ''credit_cost_gbp'', JNum (js ''20''))])"
    by (simp_all add: status_response_def declared_type_def js_def)
  have ne: "js ''credit_cost_gbp'' \<noteq> js ''credits''" by (simp add: js_def)
  have s: "files example_selection = Some [a_png, b_jpg]" "trace example_selection = []"
    "nextURL example_selection = 0" "body_blob zip_response = [0x50, 0x4B, 0x05, 0x06]"
    "textContent example_selection = (\<lambda>el. if el = priceEl then js ''20'' else [])"
    "hidden example_selection = (\<lambda>el. el = toastEl \<or> el = progressBox)"
    by (simp_all add: example_defs zip_response_def)
  from stamp_success_order [OF example_stamp_try] obtain F res rest where
    a: "files example_selection = Some F"
      "fetch serving (js ''/api/stamp'') (with_credentials (stamp_opts F example_selection)) = Resolved res"
    and t: "trace (stampBtn_onclick serving example_selection) = trace example_selection @
             [ClassListRemove progressBox,
              SetTextContent progressMsg (js ''Processing'' @ [0x2026]),
              Fetch (js ''/api/stamp'') (with_credentials (stamp_opts F example_selection)),
              CreateObjectURL (nextURL example_selection) (body_blob res),
              AppendChild \<lparr>href = nextURL example_selection, download = js ''stamped_images.zip''\<rparr>,
              Click \<lparr>href = nextURL example_selection, download = js ''stamped_images.zip''\<rparr>,
              Remove \<lparr>href = nextURL example_selection, download = js ''stamped_images.zip''\<rparr>,
              RevokeObjectURL (nextURL example_selection),
              SetTextContent progressMsg (js ''Done''),
              SetTimeout (AddHidden progressBox) 500,
              Fetch (js ''/auth/status'') (with_credentials no_opts)] @ rest"
    and w: "rest =
             (case fetch serving (js ''/auth/status'') (with_credentials no_opts) of
                Rejected m \<Rightarrow> [SetTextContent creditsEl (js ''?'')]
              | Resolved r \<Rightarrow>
                  if status r < 200 \<or> 299 < status r then [SetTextContent creditsEl (js ''?'')]
                  else if \<not> includes_js (declared_type r) (js ''application/json'')
                    then [SetTextContent creditsEl (js ''?''), SetTextContent priceEl (js ''20'')]
                  else (case body_json r of
                     Inl m \<Rightarrow> [SetTextContent creditsEl (js ''?'')]
                   | Inr JNull \<Rightarrow> [SetTextContent creditsEl (js ''?'')]
                   | Inr (JObj kvs) \<Rightarrow>
                       (case toString (nullish (map_of kvs (js ''credits'')) (js ''?'')) of
                          None \<Rightarrow> [SetTextContent creditsEl (js ''?'')]
                        | Some c \<Rightarrow>
                            (case toString (nullish (map_of kvs (js ''credit_cost_gbp'')) (js ''20'')) of
                               None \<Rightarrow> [SetTextContent creditsEl c, SetTextContent creditsEl (js ''?'')]
                             | Some g \<Rightarrow> [SetTextContent creditsEl c, SetTextContent priceEl g]))
                   | Inr v \<Rightarrow> [SetTextContent creditsEl (js ''?''), SetTextContent priceEl (js ''20'')]))"
    and x: "textContent (stampBtn_onclick serving example_selection) =
             texts_after (drop (length (trace example_selection))
               (trace (stampBtn_onclick serving example_selection))) (textContent example_selection)"
    and h: "hidden (run_callback (AddHidden progressBox) (stampBtn_onclick serving example_selection)) =
             (hidden example_selection)(progressBox := True)"
    by blast
  from a have F: "F = [a_png, b_jpg]" and res: "res = zip_response" by (simp_all add: s f)
  from w have rest: "rest = [SetTextContent creditsEl (js ''4''), SetTextContent priceEl (js ''20'')]"
    unfolding q by (simp add: r ne)
  have tr: "trace (stampBtn_onclick serving example_selection) =
      [ClassListRemove progressBox,
       SetTextContent progressMsg (js ''Processing'' @ [0x2026]),
       Fetch (js ''/api/stamp'') (with_credentials (stamp_opts [a_png, b_jpg] example_selection)),
       CreateObjectURL 0 [0x50, 0x4B, 0x05, 0x06],
       AppendChild \<lparr>href = 0, download = js ''stamped_images.zip''\<rparr>,
       Click \<lparr>href = 0, download = js ''stamped_images.zip''\<rparr>,
       Remove \<lparr>href = 0, download = js ''stamped_images.zip''\<rparr>,
       RevokeObjectURL 0,
       SetTextContent progressMsg (js ''Done''),
       SetTimeout (AddHidden progressBox) 500,
       Fetch (js ''/auth/status'') (with_credentials no_opts),
       SetTextContent creditsEl (js ''4''),
       SetTextContent priceEl (js ''20'')]"
    using t unfolding F res rest s by simp
  have tx: "textContent (stampBtn_onclick serving example_selection) progressMsg = js ''Done''"
    "textContent (stampBtn_onclick serving example_selection) creditsEl = js ''4''"
    "textContent (stampBtn_onclick serving example_selection) priceEl = js ''20''"
    by (simp_all add: x tr s(2))
  have hd: "hidden (run_callback (AddHidden progressBox) (stampBtn_onclick serving example_selection)) =
     (\<lambda>el. el = toastEl \<or> el = progressBox)"
    unfolding h s by auto
  from example_stamp_try tr tx hd show ?thesis by blast
qed


section \<open>The response to a stamp request\<close>

text \<open>
  C3, as the specification states it, fails: a response with status 200 that declares the
  content type \<open>application/json\<close> is parsed by \<open>api\<close>, the handler then calls \<open>blob()\<close>
  on the parsed value, and the submission ends in a failure notice without any download.
\<close>

theorem stamp_response_binary_counterexample:
  "fetch answering_json (js ''/api/stamp'') (with_credentials (stamp_opts [a_png, b_jpg] example_selection)) =
     Resolved json_response \<and>
   status json_response = 200 \<and>
   content_type json_response = Some (js ''application/json'') \<and>
   trace (stampBtn_onclick answering_json example_selection) =
     [ClassListRemove progressBox,
      SetTextContent progressMsg (js ''Processing'' @ [0x2026]),
      Fetch (js ''/api/stamp'') (with_credentials (stamp_opts [a_png, b_jpg] example_selection)),
      ClassListAdd progressBox,
      SetTextContent toastEl (js ''res.blob is not a function''),
      ClassListRemove toastEl,
      SetBorderColor toastEl (js ''#743232''),
      SetTimeout (AddHidden toastEl) 3000] \<and>
   CreateObjectURL 0 (body_blob json_response) \<notin> set (trace (stampBtn_onclick answering_json example_selection)) \<and>
   Click \<lparr>href = 0, download = js ''stamped_images.zip''\<rparr>
     \<notin> set (trace (stampBtn_onclick answering_json example_selection))"
  by (simp add: example_json_trace) (simp add: answering_json_def json_response_def)

text \<open>
  C3, amended. For a response to the stamp request with a status from 200 to 299: when
  the declared content type does not contain \<open>application/json\<close>, the body of the response
  is taken as a binary object, given an object URL and downloaded as "stamped_images.zip";
  when it does, nothing is downloaded: the handler hides the progress indicator and shows a
  failure notice.
\<close>

theorem stamp_response_binary:
  assumes "files st = Some F" and "F \<noteq> []"
    and "fetch p (js ''/api/stamp'') (with_credentials (stamp_opts F st)) = Resolved res"
    and "200 \<le> status res \<and> status res \<le> 299"
  shows "(\<not> includes_js (declared_type res) (js ''application/json'') \<longrightarrow>
           (\<exists>rest. trace (stampBtn_onclick p st) = trace st @
              [ClassListRemove progressBox,
               SetTextContent progressMsg (js ''Processing'' @ [0x2026]),
               Fetch (js ''/api/stamp'') (with_credentials (stamp_opts F st)),
               CreateObjectURL (nextURL st) (body_blob res),
               AppendChild \<lparr>href = nextURL st, download = js ''stamped_images.zip''\<rparr>,
               Click \<lparr>href = nextURL st, download = js ''stamped_images.zip''\<rparr>,
               Remove \<lparr>href = nextURL st, download = js ''stamped_images.zip''\<rparr>,
               RevokeObjectURL (nextURL st)] @ rest)) \<and>
         (includes_js (declared_type res) (js ''application/json'') \<longrightarrow>
           (\<exists>m. trace (stampBtn_onclick p st) = trace st @
              [ClassListRemove progressBox,
               SetTextContent progressMsg (js ''Processing'' @ [0x2026]),
               Fetch (js ''/api/stamp'') (with_credentials (stamp_opts F st)),
               ClassListAdd progressBox,
               SetTextContent toastEl m,
               ClassListRemove toastEl,
               SetBorderColor toastEl (js ''#743232''),
               SetTimeout (AddHidden toastEl) 3000]))"
proof (intro conjI impI)
  have k: "ok res" using assms(4) by (simp add: ok_def)
  {
    assume n: "\<not> includes_js (declared_type res) (js ''application/json'')"
    show "\<exists>rest. trace (stampBtn_onclick p st) = trace st @
              [ClassListRemove progressBox,
               SetTextContent progressMsg (js ''Processing'' @ [0x2026]),
               Fetch (js ''/api/stamp'') (with_credentials (stamp_opts F st)),
               CreateObjectURL (nextURL st) (body_blob res),
               AppendChild \<lparr>href = nextURL st, download = js ''stamped_images.zip''\<rparr>,
               Click \<lparr>href = nextURL st, download = js ''stamped_images.zip''\<rparr>,
               Remove \<lparr>href = nextURL st, download = js ''stamped_images.zip''\<rparr>,
               RevokeObjectURL (nextURL st)] @ rest"
      by (rule succeeded_trace [OF stamp_try_binary [OF assms(1,2,3) k n]])
  }
  {
    assume j: "includes_js (declared_type res) (js ''application/json'')"
    from stamp_try_json [OF assms(1,2,3) k j] obtain e where e: "stamp_try p st =
        (Inl e, emit (Fetch (js ''/api/stamp'') (with_credentials (stamp_opts F st)))
                       (setTextContent progressMsg (js ''Processing'' @ [0x2026])
                         (classList_remove progressBox st)))" by blast
    show "\<exists>m. trace (stampBtn_onclick p st) = trace st @
              [ClassListRemove progressBox,
               SetTextContent progressMsg (js ''Processing'' @ [0x2026]),
               Fetch (js ''/api/stamp'') (with_credentials (stamp_opts F st)),
               ClassListAdd progressBox,
               SetTextContent toastEl m,
               ClassListRemove toastEl,
               SetBorderColor toastEl (js ''#743232''),
               SetTimeout (AddHidden toastEl) 3000]"
      by (rule exI [where x = "message e"]) (rule failed_trace [OF e])
  }
qed

theorem stamp_response_binary_witness:
  "files example_selection = Some [a_png, b_jpg] \<and>
   fetch serving (js ''/api/stamp'') (with_credentials (stamp_opts [a_png, b_jpg] example_selection)) =
     Resolved zip_response \<and>
   status zip_response = 200 \<and>
   \<not> includes_js (declared_type zip_response) (js ''application/json'') \<and>
   (\<exists>rest. trace (stampBtn_onclick serving example_selection) =
      [ClassListRemove progressBox,
       SetTextContent progressMsg (js ''Processing'' @ [0x2026]),
       Fetch (js ''/api/stamp'') (with_credentials (stamp_opts [a_png, b_jpg] example_selection)),
       CreateObjectURL 0 [0x50, 0x4B, 0x05, 0x06],
       AppendChild \<lparr>href = 0, download = js ''stamped_images.zip''\<rparr>,
       Click \<lparr>href = 0, download = js ''stamped_images.zip''\<rparr>,
       Remove \<lparr>href = 0, download = js ''stamped_images.zip''\<rparr>,
       RevokeObjectURL 0] @ rest) \<and>
   fetch answering_json (js ''/api/stamp'') (with_credentials (stamp_opts [a_png, b_jpg] example_selection)) =
     Resolved json_response \<and>
   includes_js (declared_type json_response) (js ''application/json'') \<and>
   (\<exists>m. trace (stampBtn_onclick answering_json example_selection) =
      [ClassListRemove progressBox,
       SetTextContent progressMsg (js ''Processing'' @ [0x2026]),
       Fetch (js ''/api/stamp'') (with_credentials (stamp_opts [a_png, b_jpg] example_selection)),
       ClassListAdd progressBox,
       SetTextContent toastEl m,
       ClassListRemove toastEl,
       SetBorderColor toastEl (js ''#743232''),
       SetTimeout (AddHidden toastEl) 3000])"
proof -
  have fs: "files example_selection = Some [a_png, b_jpg]" by (simp add: example_defs)
  have ne: "[a_png, b_jpg] \<noteq> []" by simp
  have f: "fetch serving (js ''/api/stamp'') (with_credentials (stamp_opts [a_png, b_jpg] example_selection)) =
      Resolved zip_response"
    by (simp add: serving_def)
  have g: "fetch answering_json (js ''/api/stamp'') (with_credentials (stamp_opts [a_png, b_jpg] example_selection)) =
      Resolved json_response"
    by (simp add: answering_json_def)
  have k: "200 \<le> status zip_response \<and> status zip_response \<le> 299"
    "200 \<le> status json_response \<and> status json_response \<le> 299"
    by (simp_all add: zip_response_def json_response_def)
  have t: "\<not> includes_js (declared_type zip_response) (js ''application/json'')"
    "includes_js (declared_type json_response) (js ''application/json'')"
    by (simp_all add: declared_type_def zip_response_def json_response_def js_def)
  have s: "trace example_selection = []" "nextURL example_selection = 0"
    "body_blob zip_response = [0x50, 0x4B, 0x05, 0x06]" "status zip_response = 200"
    by (simp_all add: example_defs zip_response_def)
  from stamp_response_binary [OF fs ne f k(1)] stamp_response_binary [OF fs ne g k(2)]
  show ?thesis
    by (simp add: fs f g t s)
qed


section \<open>The credentials of login and signup\<close>

text \<open>
  C10. The login handler and the signup handler each send one request whose body is the
  JSON text of an object with the email value, trimmed of its leading and trailing
  whitespace, and the password value as it stands. Quoting a string in JSON loses
  nothing, so two pages whose password values differ in any way, in particular only by
  whitespace at the ends, send different bodies when their trimmed emails agree.
\<close>

theorem credentials_sent:
  "(\<exists>later. requests (trace (loginBtn_onclick p st)) =
      requests (trace st) @
      (js ''/auth/login'',
       \<lparr>credentials = Some (js ''include''), http_method = Some (js ''POST''),
        headers = [(js ''content-type'', js ''application/json'')],
        body = Some (StringBody
          (stringify_credentials (trim (input_value st email)) (input_value st password)))\<rparr>) # later \<and>
      (\<forall>r \<in> set later. fst r = js ''/auth/status'')) \<and>
   requests (trace (signupBtn_onclick p st)) =
      requests (trace st) @
      [(js ''/auth/signup'',
        \<lparr>credentials = Some (js ''include''), http_method = Some (js ''POST''),
         headers = [(js ''content-type'', js ''application/json'')],
         body = Some (StringBody
           (stringify_credentials (trim (input_value st email)) (input_value st password)))\<rparr>)] \<and>
   spec_trimmed (input_value st email) (trim (input_value st email)) \<and>
   (\<forall>st'. input_value st' password \<noteq> input_value st password \<and>
          trim (input_value st' email) = trim (input_value st email) \<longrightarrow>
          body (credentials_opts st') \<noteq> body (credentials_opts st))"
proof (intro conjI)
  obtain r where a: "api p (js ''/auth/login'') (credentials_opts st) st =
      (r, emit (Fetch (js ''/auth/login'') (with_credentials (credentials_opts st))) st)"
    by (rule api_cases)
  have "\<exists>later. requests (trace (loginBtn_onclick p st)) =
      requests (trace st) @ (js ''/auth/login'', with_credentials (credentials_opts st)) # later \<and>
      (\<forall>r \<in> set later. fst r = js ''/auth/status'')"
    unfolding loginBtn_onclick_def a
    by (simp add: requests_emit requests_toast requests_refreshStatus split: sum.split)
  then show "\<exists>later. requests (trace (loginBtn_onclick p st)) =
      requests (trace st) @
      (js ''/auth/login'',
       \<lparr>credentials = Some (js ''include''), http_method = Some (js ''POST''),
        headers = [(js ''content-type'', js ''application/json'')],
        body = Some (StringBody
          (stringify_credentials (trim (input_value st email)) (input_value st password)))\<rparr>) # later \<and>
      (\<forall>r \<in> set later. fst r = js ''/auth/status'')"
    by (simp only: credentials_request)
next
  obtain r where a: "api p (js ''/auth/signup'') (credentials_opts st) st =
      (r, emit (Fetch (js ''/auth/signup'') (with_credentials (credentials_opts st))) st)"
    by (rule api_cases)
  have "requests (trace (signupBtn_onclick p st)) =
      requests (trace st) @ [(js ''/auth/signup'', with_credentials (credentials_opts st))]"
    unfolding signupBtn_onclick_def a
    by (simp add: requests_emit requests_toast split: sum.split)
  then show "requests (trace (signupBtn_onclick p st)) =
      requests (trace st) @
      [(js ''/auth/signup'',
        \<lparr>credentials = Some (js ''include''), http_method = Some (js ''POST''),
         headers = [(js ''content-type'', js ''application/json'')],
         body = Some (StringBody
           (stringify_credentials (trim (input_value st email)) (input_value st password)))\<rparr>)]"
    by (simp only: credentials_request)
next
  show "spec_trimmed (input_value st email) (trim (input_value st email))" by (rule trim_spec)
next
  show "\<forall>st'. input_value st' password \<noteq> input_value st password \<and>
          trim (input_value st' email) = trim (input_value st email) \<longrightarrow>
          body (credentials_opts st') \<noteq> body (credentials_opts st)"
    by (auto simp: credentials_opts_def dest: stringify_credentials_inj)
qed

theorem credentials_sent_witness:
  \<open>trim (input_value example_page email) = js ''ann@example.org'' \<and>
   input_value example_page password = js '' secret '' \<and>
   requests (trace (signupBtn_onclick refusing example_page)) =
      [(js ''/auth/signup'',
        \<lparr>credentials = Some (js ''include''), http_method = Some (js ''POST''),
         headers = [(js ''content-type'', js ''application/json'')],
         body = Some (StringBody
           (js ''{"email":"ann@example.org","password":" secret "}''))\<rparr>)] \<and>
   hd (requests (trace (loginBtn_onclick refusing example_page))) =
      (js ''/auth/login'',
        \<lparr>credentials = Some (js ''include''), http_method = Some (js ''POST''),
         headers = [(js ''content-type'', js ''application/json'')],
         body = Some (StringBody
           (js ''{"email":"ann@example.org","password":" secret "}''))\<rparr>) \<and>
   body (credentials_opts (example_page\<lparr>input_value := (input_value example_page)(password := js ''secret'')\<rparr>))
     \<noteq> body (credentials_opts example_page)\<close>
proof -
  let ?st' = "example_page\<lparr>input_value := (input_value example_page)(password := js ''secret'')\<rparr>"
  have e: "trim (input_value example_page email) = js ''ann@example.org''"
    by (simp add: example_page_def trim_def isWhiteSpace_def js_def)
  have pw: "input_value example_page password = js '' secret ''"
    by (simp add: example_page_def)
  have s: \<open>stringify_credentials (js ''ann@example.org'') (js '' secret '') =
      js ''{"email":"ann@example.org","password":" secret "}''\<close>
    by (simp add: stringify_credentials_def QuoteJSONString_def quote_unit_def
        isLeadingSurrogate_def isTrailingSurrogate_def js_def)
  have t: "trace example_page = []" by (simp add: example_page_def)
  have d: "input_value ?st' password \<noteq> input_value example_page password \<and>
           trim (input_value ?st' email) = trim (input_value example_page email)"
    by (simp add: example_page_def js_def)
  from credentials_sent [of refusing example_page] d show ?thesis
    unfolding e pw s t by auto
qed


end
